theory Spec2Isabelle
  imports Main "HOL-Library.AList"
begin

section \<open>Python values and keyword dictionaries\<close>

text \<open>
  The values that travel through \<^verbatim>\<open>**kwargs\<close>. \<open>PFloat m e\<close> is the finite float
  \<open>m * 2^e\<close>; \<open>PObj n\<close> is any other object (a layer class, a module), known by its
  identity only. Such an object is not a real number and defines no conversion to one.
\<close>

datatype pyval = PNone | PBool bool | PInt int | PFloat int int | PStr string | PObj nat

text \<open>
  A keyword dictionary, as the list of its items in insertion order. A Python dictionary
  holds a key once: \<open>is_dict\<close>. Python binds the named parameters of
  \<^verbatim>\<open>create_model\<close> before it collects \<^verbatim>\<open>**kwargs\<close>, so that dictionary never holds
  one of their names.
\<close>

type_synonym kwargs = "(string \<times> pyval) list"

definition is_dict :: "kwargs \<Rightarrow> bool" where
  "is_dict kw = distinct (map fst kw)"

text \<open>\<^verbatim>\<open>kwargs.get(k, default)\<close>.\<close>

definition get :: "kwargs \<Rightarrow> string \<Rightarrow> pyval \<Rightarrow> pyval" where
  "get kw k dflt = (case map_of kw k of None \<Rightarrow> dflt | Some v \<Rightarrow> v)"

text \<open>\<^verbatim>\<open>kwargs.pop(k, default)\<close>: the value read and the dictionary left behind.\<close>

definition pop :: "kwargs \<Rightarrow> string \<Rightarrow> pyval \<Rightarrow> pyval \<times> kwargs" where
  "pop kw k dflt = (get kw k dflt, AList.delete k kw)"

text \<open>
  \<^verbatim>\<open>kwargs[k] = v\<close>: a key that is there keeps its place, a new one goes to the end.
\<close>

definition setitem :: "kwargs \<Rightarrow> string \<Rightarrow> pyval \<Rightarrow> kwargs" where
  "setitem kw k v = AList.update k v kw"

section \<open>Errors, events and runs\<close>

text \<open>
  \<open>UnknownModel\<close> is the \<^verbatim>\<open>RuntimeError('Unknown model (%s)' % model_name)\<close> of line 75,
  \<open>FormatTypeError\<close> and \<open>FormatOverflowError\<close> are the TypeError and the OverflowError
  of the \<^verbatim>\<open>%f\<close> in lines 61-62, and \<open>Raised x\<close> is an exception \<open>x\<close> that comes out of a
  collaborator (the activation and normalisation lookups, the model constructor, the
  checkpoint loader).
\<close>

datatype error =
    UnknownModel string
  | FormatTypeError pyval
  | FormatOverflowError pyval
  | Raised string

text \<open>
  \<^verbatim>\<open>'... %f.' % v\<close> converts \<open>v\<close> to a float first. The conversion of an int rounds to
  the nearest double and raises OverflowError when that is beyond the largest one,
  \<open>2^1024 - 2^971\<close>: from \<open>2^1024 - 2^970\<close> on.
\<close>

definition int_fits_float :: "int \<Rightarrow> bool" where
  "int_fits_float i = (\<bar>i\<bar> < 2 ^ 1024 - 2 ^ 970)"

text \<open>
  The exception that \<^verbatim>\<open>'... %f.' % v\<close> raises, None when it gives the text: a bool, a
  float and an int in range are formatted, a larger int raises OverflowError, and
  anything else raises TypeError.
\<close>

fun format_f :: "pyval \<Rightarrow> error option" where
  "format_f (PBool _) = None"
| "format_f (PInt i) = (if int_fits_float i then None else Some (FormatOverflowError (PInt i)))"
| "format_f (PFloat _ _) = None"
| "format_f v = Some (FormatTypeError v)"

text \<open>The three flags handed to \<^verbatim>\<open>set_layer_config\<close>: scriptable, exportable, no_jit.\<close>

type_synonym layer_config = "bool option \<times> bool option \<times> bool option"

text \<open>
  What a call of \<^verbatim>\<open>create_model\<close> does to the outside, in order: entering and leaving a
  \<^verbatim>\<open>with set_layer_config(...)\<close> block, printing (format string and arguments), asking
  the registry for the entrypoint, calling \<^verbatim>\<open>create_fn(**model_args, **kwargs)\<close>, and
  calling \<^verbatim>\<open>load_checkpoint(model, checkpoint_path)\<close>.
\<close>

datatype 'm event =
    SetLayerConfig layer_config
  | RestoreLayerConfig
  | Print string "pyval list"
  | ModelEntrypoint string
  | CreateFn string kwargs kwargs
  | LoadCheckpoint 'm string

text \<open>A run: the value returned or the exception raised, and the events in order.\<close>

type_synonym ('a, 'm) run = "(error + 'a) \<times> 'm event list"

definition ret :: "'a \<Rightarrow> ('a, 'm) run" where
  "ret x = (Inr x, [])"

definition raise :: "error \<Rightarrow> ('a, 'm) run" where
  "raise e = (Inl e, [])"

definition emit :: "'m event \<Rightarrow> (unit, 'm) run" where
  "emit ev = (Inr (), [ev])"

text \<open>The result of a collaborator: its exception propagates as \<open>Raised\<close>.\<close>

definition call :: "string + 'a \<Rightarrow> ('a, 'm) run" where
  "call r = (case r of Inl x \<Rightarrow> (Inl (Raised x), []) | Inr v \<Rightarrow> (Inr v, []))"

text \<open>Sequencing: an exception ends the run, the events so far stay.\<close>

definition then_run :: "('a, 'm) run \<Rightarrow> ('a \<Rightarrow> ('b, 'm) run) \<Rightarrow> ('b, 'm) run" where
  "then_run r f =
     (case fst r of
        Inl e \<Rightarrow> (Inl e, snd r)
      | Inr x \<Rightarrow> (fst (f x), snd r @ snd (f x)))"

text \<open>
  \<^verbatim>\<open>with set_layer_config(...): body\<close>. The context manager restores the configuration
  when the block is left, also by an exception.
\<close>

definition with_set_layer_config :: "layer_config \<Rightarrow> ('a, 'm) run \<Rightarrow> ('a, 'm) run" where
  "with_set_layer_config c body = (fst body, SetLayerConfig c # snd body @ [RestoreLayerConfig])"

section \<open>The collaborators\<close>

text \<open>
  The registry, the layer lookups, the checkpoint loader and the communication helper are
  imported by \<^verbatim>\<open>build_backone.py\<close> and defined elsewhere; they are parameters here.
  The queries return plainly. A lookup, a constructor and the loader return or raise
  (\<open>Inl\<close> the exception). What runs inside a \<^verbatim>\<open>with set_layer_config\<close> block takes the
  flags of that block, since the layer configuration is what it may read.
  \<open>model_entrypoint env name\<close> is the constructor \<^verbatim>\<open>create_fn\<close>, applied to the two
  dictionaries \<^verbatim>\<open>model_args\<close> and \<^verbatim>\<open>kwargs\<close>. \<^verbatim>\<open>load_checkpoint\<close> changes the model
  object in place and its result is not used.
\<close>

record 'm collaborators =
  is_model :: "string \<Rightarrow> bool"
  is_model_in_modules :: "string \<Rightarrow> string list \<Rightarrow> bool"
  model_entrypoint :: "string \<Rightarrow> layer_config \<Rightarrow> kwargs \<Rightarrow> kwargs \<Rightarrow> string + 'm"
  load_checkpoint :: "'m \<Rightarrow> string \<Rightarrow> string + unit"
  get_act_layer :: "layer_config \<Rightarrow> pyval \<Rightarrow> string + pyval"
  get_norm :: "pyval \<Rightarrow> string + pyval"
  get_world_size :: int

section \<open>create_model\<close>

text \<open>
  Lines 38-48. Outside the EfficientNet and MobileNetV3 modules the three batch-norm
  keywords are popped and \<^verbatim>\<open>act_layer\<close> (default \<^verbatim>\<open>'relu'\<close>) is replaced by its layer.
\<close>

definition resolve_act_layer ::
  "'m collaborators \<Rightarrow> layer_config \<Rightarrow> string \<Rightarrow> kwargs \<Rightarrow> (kwargs, 'm) run" where
  "resolve_act_layer env c model_name kwargs =
     (let is_efficientnet = is_model_in_modules env model_name [''efficientnet'', ''mobilenetv3'']
      in if \<not> is_efficientnet then
           let kwargs = snd (pop kwargs ''bn_tf'' PNone);
               kwargs = snd (pop kwargs ''bn_momentum'' PNone);
               kwargs = snd (pop kwargs ''bn_eps'' PNone)
           in with_set_layer_config c
                (let (act_layer, kwargs) = pop kwargs ''act_layer'' (PStr ''relu'')
                 in then_run (call (get_act_layer env c act_layer))
                      (\<lambda>layer. ret (setitem kwargs ''act_layer'' layer)))
         else ret kwargs)"

text \<open>Lines 50-56.\<close>

definition resolve_norm_layer :: "'m collaborators \<Rightarrow> kwargs \<Rightarrow> (kwargs, 'm) run" where
  "resolve_norm_layer env kwargs =
     (let gpus = get_world_size env;
          (norm_layer, kwargs) = pop kwargs ''norm_layer'' (PStr ''BN'')
      in then_run
           (if gpus > 1 \<and> norm_layer \<notin> set [PStr ''SyncBN'', PStr ''nnSyncBN'', PStr ''naiveSyncBN'']
            then then_run (emit (Print ''conver norm_layer {} to SyncBN'' [norm_layer]))
                   (\<lambda>_. ret (PStr ''SyncBN''))
            else ret norm_layer)
           (\<lambda>norm_layer. then_run (call (get_norm env norm_layer))
              (\<lambda>layer. ret (setitem kwargs ''norm_layer'' layer))))"

text \<open>Lines 58-63.\<close>

definition migrate_drop_connect :: "kwargs \<Rightarrow> (kwargs, 'm) run" where
  "migrate_drop_connect kwargs =
     (let (drop_connect_rate, kwargs) = pop kwargs ''drop_connect_rate'' PNone
      in if drop_connect_rate \<noteq> PNone \<and> get kwargs ''drop_path_rate'' PNone = PNone then
           case format_f drop_connect_rate of
             None \<Rightarrow>
               then_run
                 (emit (Print (''WARNING: 'drop_connect' as an argument is deprecated, please use 'drop_path'.''
                               @ '' Setting drop_path to %f.'') [drop_connect_rate]))
                 (\<lambda>_. ret (setitem kwargs ''drop_path_rate'' drop_connect_rate))
           | Some err \<Rightarrow> raise err
         else ret kwargs)"

text \<open>Line 68: \<^verbatim>\<open>{k: v for k, v in kwargs.items() if v is not None}\<close>.\<close>

definition drop_unset :: "kwargs \<Rightarrow> kwargs" where
  "drop_unset kwargs = filter (\<lambda>(k, v). v \<noteq> PNone) kwargs"

text \<open>Lines 38-68 together: the keyword dictionary that is ready for the constructor.\<close>

definition normalize_kwargs ::
  "'m collaborators \<Rightarrow> layer_config \<Rightarrow> string \<Rightarrow> kwargs \<Rightarrow> (kwargs, 'm) run" where
  "normalize_kwargs env c model_name kwargs =
     then_run (resolve_act_layer env c model_name kwargs) (\<lambda>kwargs.
     then_run (resolve_norm_layer env kwargs) (\<lambda>kwargs.
     then_run (migrate_drop_connect kwargs) (\<lambda>kwargs.
     ret (drop_unset kwargs))))"

text \<open>Lines 70-75.\<close>

definition instantiate ::
  "'m collaborators \<Rightarrow> layer_config \<Rightarrow> string \<Rightarrow> kwargs \<Rightarrow> kwargs \<Rightarrow> ('m, 'm) run" where
  "instantiate env c model_name model_args kwargs =
     with_set_layer_config c
       (if is_model env model_name then
          then_run (emit (ModelEntrypoint model_name)) (\<lambda>_.
          then_run (emit (CreateFn model_name model_args kwargs)) (\<lambda>_.
          call (model_entrypoint env model_name c model_args kwargs)))
        else raise (UnknownModel (''Unknown model ('' @ model_name @ '')'')))"

text \<open>
  Lines 9-80. The parameters \<^verbatim>\<open>model_name\<close> and \<^verbatim>\<open>checkpoint_path\<close> are strings and
  the three flags are booleans or None, as the docstring has them; \<^verbatim>\<open>pretrained\<close>,
  \<^verbatim>\<open>num_classes\<close> and \<^verbatim>\<open>in_chans\<close> are handed on as they come.
\<close>

definition create_model ::
  "'m collaborators \<Rightarrow> string \<Rightarrow> pyval \<Rightarrow> pyval \<Rightarrow> pyval \<Rightarrow> string \<Rightarrow>
   bool option \<Rightarrow> bool option \<Rightarrow> bool option \<Rightarrow> kwargs \<Rightarrow> ('m, 'm) run" where
  "create_model env model_name pretrained num_classes in_chans checkpoint_path
     scriptable exportable no_jit kwargs =
     (let model_args = [(''pretrained'', pretrained), (''num_classes'', num_classes),
                        (''in_chans'', in_chans)];
          c = (scriptable, exportable, no_jit)
      in then_run (normalize_kwargs env c model_name kwargs) (\<lambda>kwargs.
         then_run (instantiate env c model_name model_args kwargs) (\<lambda>model.
         then_run
           (if checkpoint_path \<noteq> [] then
              then_run (emit (LoadCheckpoint model checkpoint_path))
                (\<lambda>_. call (load_checkpoint env model checkpoint_path))
            else ret ())
           (\<lambda>_. ret model))))"

section \<open>build_backbone\<close>

text \<open>The fields of \<^verbatim>\<open>cfg\<close> that \<^verbatim>\<open>build_backbone\<close> reads.\<close>

record cfg_model =
  BACKBONE :: string
  CLASSES :: pyval
  BACKBONE_WEIGHTS :: string
  OPT :: pyval
  NORM_LAYER :: pyval
  ACTIVATE :: pyval
  POOLING_LAYER :: pyval

record cfg_train =
  INPUT_CHANNEL :: pyval

record cfg =
  MODEL :: cfg_model
  TRAIN :: cfg_train

text \<open>Lines 84-93: the three flags, as (scriptable, exportable, no_jit).\<close>

definition backbone_flags :: "cfg \<Rightarrow> bool \<times> bool \<times> bool" where
  "backbone_flags cf =
     (let scriptable = False; exportable = False; no_jit = False
      in if OPT (MODEL cf) = PStr ''infer'' then
           (let no_jit = True; scriptable = True in (scriptable, exportable, no_jit))
         else if OPT (MODEL cf) = PStr ''jit'' then
           (let no_jit = False; scriptable = True in (scriptable, exportable, no_jit))
         else (scriptable, exportable, no_jit))"

text \<open>Lines 83-105.\<close>

definition build_backbone :: "'m collaborators \<Rightarrow> cfg \<Rightarrow> ('m, 'm) run" where
  "build_backbone env cf =
     (let (scriptable, exportable, no_jit) = backbone_flags cf
      in create_model env (BACKBONE (MODEL cf))
           (PBool True)
           (CLASSES (MODEL cf))
           (INPUT_CHANNEL (TRAIN cf))
           (BACKBONE_WEIGHTS (MODEL cf))
           (Some scriptable)
           (Some exportable)
           (Some no_jit)
           [(''norm_layer'', NORM_LAYER (MODEL cf)),
            (''act_layer'', ACTIVATE (MODEL cf)),
            (''global_pool'', POOLING_LAYER (MODEL cf))])"

section \<open>A registry and a configuration to run the model on\<close>

text \<open>
  Two registered models, one of them in the \<^verbatim>\<open>efficientnet\<close> module, two processes, and
  layer lookups that know a few names, give None for an empty name and raise otherwise.
  The constructor returns the length of the name as the model object.
\<close>

definition demo_registry :: "nat collaborators" where
  "demo_registry =
     \<lparr>is_model = (\<lambda>n. n = ''resnet50'' \<or> n = ''efficientnet_b0''),
      is_model_in_modules = (\<lambda>n ms. n = ''efficientnet_b0'' \<and> ''efficientnet'' \<in> set ms),
      model_entrypoint = (\<lambda>n c a kw. Inr (length n)),
      load_checkpoint = (\<lambda>m p. Inr ()),
      get_act_layer = (\<lambda>c v. if v = PStr ''relu'' then Inr (PObj 1)
                               else if v = PStr ''swish'' then Inr (PObj 2)
                               else if v = PNone \<or> v = PStr [] then Inr PNone
                               else Inl ''KeyError''),
      get_norm = (\<lambda>v. if v = PStr ''BN'' then Inr (PObj 10)
                        else if v = PStr ''SyncBN'' then Inr (PObj 11)
                        else if v = PNone \<or> v = PStr [] then Inr PNone
                        else Inl ''KeyError''),
      get_world_size = 2\<rparr>"

text \<open>The same registry in a run of one process.\<close>

definition single_registry :: "nat collaborators" where
  "single_registry = demo_registry\<lparr>get_world_size := 1\<rparr>"

definition demo_cfg :: "pyval \<Rightarrow> cfg" where
  "demo_cfg opt =
     \<lparr>MODEL = \<lparr>BACKBONE = ''resnet50'', CLASSES = PInt 10, BACKBONE_WEIGHTS = [],
               OPT = opt, NORM_LAYER = PStr ''BN'', ACTIVATE = PStr ''relu'',
               POOLING_LAYER = PStr ''avg''\<rparr>,
      TRAIN = \<lparr>INPUT_CHANNEL = PInt 3\<rparr>\<rparr>"


section \<open>Lemmas\<close>

subsection \<open>Dictionaries\<close>

lemma fst_pop: "fst (pop kw k d) = get kw k d"
  by (simp add: pop_def)

lemma map_of_pop: "map_of (snd (pop kw k d)) = (map_of kw)(k := None)"
  by (simp add: pop_def delete_conv')

lemma is_dict_pop: "is_dict kw \<Longrightarrow> is_dict (snd (pop kw k d))"
  by (simp add: pop_def is_dict_def distinct_delete)

lemma get_pop_other: "k' \<noteq> k \<Longrightarrow> get (snd (pop kw k d)) k' d' = get kw k' d'"
  by (simp add: get_def map_of_pop)

lemma map_of_setitem: "map_of (setitem kw k v) = (map_of kw)(k \<mapsto> v)"
  by (simp add: setitem_def update_conv')

lemma is_dict_setitem: "is_dict kw \<Longrightarrow> is_dict (setitem kw k v)"
  by (simp add: setitem_def is_dict_def distinct_update)

lemma set_drop_unset: "set (drop_unset kw) = {(k, v). (k, v) \<in> set kw \<and> v \<noteq> PNone}"
  by (auto simp add: drop_unset_def)

lemma is_dict_drop_unset: "is_dict kw \<Longrightarrow> is_dict (drop_unset kw)"
  by (simp add: drop_unset_def is_dict_def distinct_map_filter)

lemma map_of_drop_unset:
  "is_dict kw \<Longrightarrow>
   map_of (drop_unset kw) k =
     (case map_of kw k of None \<Rightarrow> None | Some v \<Rightarrow> if v = PNone then None else Some v)"
proof (induction kw)
  case Nil
  then show ?case by (simp add: drop_unset_def)
next
  case (Cons p kw)
  obtain k' v' where p: "p = (k', v')" by (cases p)
  from Cons.prems have d: "is_dict kw" and fresh: "k' \<notin> fst ` set kw"
    by (simp_all add: is_dict_def p)
  from fresh have "map_of kw k' = None"
    by (simp add: map_of_eq_None_iff)
  with Cons.IH [OF d] show ?case
    by (auto simp add: drop_unset_def p split: option.splits)
qed

subsection \<open>Runs\<close>

lemma fst_ret: "fst (ret x) = Inr x" and snd_ret: "snd (ret x) = []"
  by (simp_all add: ret_def)

lemma fst_raise: "fst (raise e) = Inl e" and snd_raise: "snd (raise e) = []"
  by (simp_all add: raise_def)

lemma fst_emit: "fst (emit ev) = Inr ()" and snd_emit: "snd (emit ev) = [ev]"
  by (simp_all add: emit_def)

lemma snd_call: "snd (call r) = []"
  by (simp add: call_def split: sum.splits)

lemma fst_call_Inr: "fst (call r) = Inr v \<longleftrightarrow> r = Inr v"
  by (simp add: call_def split: sum.splits)

lemma fst_call_Inl: "fst (call r) = Inl e \<longleftrightarrow> (\<exists>x. r = Inl x \<and> e = Raised x)"
  by (auto simp add: call_def split: sum.splits)

lemma fst_then_run_Inr:
  "fst (then_run r f) = Inr y \<longleftrightarrow> (\<exists>x. fst r = Inr x \<and> fst (f x) = Inr y)"
  by (cases "fst r") (simp_all add: then_run_def)

lemma fst_then_run_Inl:
  "fst (then_run r f) = Inl e \<longleftrightarrow> fst r = Inl e \<or> (\<exists>x. fst r = Inr x \<and> fst (f x) = Inl e)"
  by (cases "fst r") (simp_all add: then_run_def)

lemma snd_then_run:
  "snd (then_run r f) = (case fst r of Inl e \<Rightarrow> snd r | Inr x \<Rightarrow> snd r @ snd (f x))"
  by (simp add: then_run_def split: sum.splits)

lemma fst_with: "fst (with_set_layer_config c b) = fst b"
  and snd_with: "snd (with_set_layer_config c b) = SetLayerConfig c # snd b @ [RestoreLayerConfig]"
  by (simp_all add: with_set_layer_config_def)

lemmas run_simps = fst_ret snd_ret fst_raise snd_raise fst_emit snd_emit snd_call
  fst_with snd_with snd_then_run

subsection \<open>The steps of the normalisation\<close>

lemma resolve_act_layer_Inr:
  assumes "fst (resolve_act_layer env c model_name kwargs) = Inr kw1"
  shows "if is_model_in_modules env model_name [''efficientnet'', ''mobilenetv3'']
         then kw1 = kwargs
         else \<exists>layer. get_act_layer env c (get kwargs ''act_layer'' (PStr ''relu'')) = Inr layer
                \<and> map_of kw1 = (map_of kwargs)(''bn_tf'' := None, ''bn_momentum'' := None,
                                   ''bn_eps'' := None, ''act_layer'' \<mapsto> layer)"
  using assms
  by (auto simp add: resolve_act_layer_def Let_def run_simps fst_then_run_Inr fst_call_Inr
      fst_pop map_of_pop map_of_setitem get_pop_other split_beta split: if_splits)

lemma resolve_act_layer_is_dict:
  assumes "fst (resolve_act_layer env c model_name kwargs) = Inr kw1" and "is_dict kwargs"
  shows "is_dict kw1"
  using assms
  by (auto simp add: resolve_act_layer_def Let_def run_simps fst_then_run_Inr
      is_dict_pop is_dict_setitem split_beta split: if_splits)

lemma resolve_norm_layer_Inr:
  assumes "fst (resolve_norm_layer env kw1) = Inr kw2"
  shows "\<exists>layer. get_norm env
           (if get_world_size env > 1
               \<and> get kw1 ''norm_layer'' (PStr ''BN'')
                   \<notin> {PStr ''SyncBN'', PStr ''nnSyncBN'', PStr ''naiveSyncBN''}
            then PStr ''SyncBN'' else get kw1 ''norm_layer'' (PStr ''BN'')) = Inr layer
          \<and> map_of kw2 = (map_of kw1)(''norm_layer'' \<mapsto> layer)"
  using assms
  by (auto simp add: resolve_norm_layer_def Let_def run_simps fst_then_run_Inr fst_call_Inr
      fst_pop map_of_pop map_of_setitem split_beta split: if_splits)

lemma resolve_norm_layer_is_dict:
  assumes "fst (resolve_norm_layer env kw1) = Inr kw2" and "is_dict kw1"
  shows "is_dict kw2"
  using assms
  by (auto simp add: resolve_norm_layer_def Let_def run_simps fst_then_run_Inr
      is_dict_pop is_dict_setitem split_beta split: if_splits)

lemma migrate_drop_connect_Inr:
  assumes "fst (migrate_drop_connect kw2 :: (kwargs, 'm) run) = Inr kw3"
  shows "map_of kw3 =
           (if get kw2 ''drop_connect_rate'' PNone \<noteq> PNone \<and> get kw2 ''drop_path_rate'' PNone = PNone
            then (map_of kw2)(''drop_connect_rate'' := None,
                              ''drop_path_rate'' \<mapsto> get kw2 ''drop_connect_rate'' PNone)
            else (map_of kw2)(''drop_connect_rate'' := None))"
  using assms
  by (auto simp add: migrate_drop_connect_def Let_def run_simps fst_then_run_Inr
      fst_pop map_of_pop map_of_setitem get_pop_other split_beta
      split: if_splits option.splits)

lemma migrate_drop_connect_is_dict:
  assumes "fst (migrate_drop_connect kw2 :: (kwargs, 'm) run) = Inr kw3" and "is_dict kw2"
  shows "is_dict kw3"
  using assms
  by (auto simp add: migrate_drop_connect_def Let_def run_simps fst_then_run_Inr
      is_dict_pop is_dict_setitem split_beta split: if_splits option.splits)

lemma normalize_kwargs_Inr:
  assumes "fst (normalize_kwargs (env :: 'm collaborators) c model_name kwargs) = Inr kw'"
  shows "\<exists>kw1 kw2 kw3.
           fst (resolve_act_layer env c model_name kwargs) = Inr kw1
         \<and> fst (resolve_norm_layer env kw1) = Inr kw2
         \<and> fst (migrate_drop_connect kw2 :: (kwargs, 'm) run) = Inr kw3
         \<and> kw' = drop_unset kw3"
  using assms by (auto simp add: normalize_kwargs_def fst_then_run_Inr fst_ret)

lemma resolve_act_layer_events:
  "ev \<in> set (snd (resolve_act_layer env c model_name kwargs)) \<Longrightarrow>
     ev = SetLayerConfig c \<or> ev = RestoreLayerConfig"
  by (auto simp add: resolve_act_layer_def Let_def run_simps split_beta split: if_splits sum.splits)

lemma resolve_norm_layer_events:
  "ev \<in> set (snd (resolve_norm_layer env kwargs)) \<Longrightarrow> (\<exists>s vs. ev = Print s vs)"
  by (auto simp add: resolve_norm_layer_def Let_def run_simps split_beta split: if_splits sum.splits)

lemma migrate_drop_connect_events:
  "ev \<in> set (snd (migrate_drop_connect kwargs)) \<Longrightarrow> (\<exists>s vs. ev = Print s vs)"
  by (auto simp add: migrate_drop_connect_def Let_def run_simps split_beta
      split: if_splits sum.splits option.splits)

lemma normalize_kwargs_events:
  assumes "ev \<in> set (snd (normalize_kwargs env c model_name kwargs))"
  shows "ev = SetLayerConfig c \<or> ev = RestoreLayerConfig \<or> (\<exists>s vs. ev = Print s vs)"
  using assms
  by (auto simp add: normalize_kwargs_def snd_then_run snd_ret split: sum.splits
      dest: resolve_act_layer_events resolve_norm_layer_events migrate_drop_connect_events)

lemma instantiate_registered:
  "is_model env n \<Longrightarrow>
   instantiate env c n a kw =
     (case model_entrypoint env n c a kw of Inl x \<Rightarrow> Inl (Raised x) | Inr m \<Rightarrow> Inr m,
      [SetLayerConfig c, ModelEntrypoint n, CreateFn n a kw, RestoreLayerConfig])"
  by (simp add: instantiate_def with_set_layer_config_def then_run_def emit_def call_def
      split: sum.splits)

lemma instantiate_unregistered:
  "\<not> is_model env n \<Longrightarrow>
   instantiate env c n a kw =
     (Inl (UnknownModel (''Unknown model ('' @ n @ '')'')), [SetLayerConfig c, RestoreLayerConfig])"
  by (simp add: instantiate_def with_set_layer_config_def raise_def)

lemma create_model_not_normalized:
  assumes "fst (normalize_kwargs env (s, e, nj) model_name kwargs) = Inl er"
  shows "create_model env model_name p nc ic cp s e nj kwargs =
           (Inl er, snd (normalize_kwargs env (s, e, nj) model_name kwargs))"
  using assms by (simp add: create_model_def then_run_def Let_def)

lemma create_model_unregistered:
  assumes "fst (normalize_kwargs env (s, e, nj) model_name kwargs) = Inr kw'"
    and "\<not> is_model env model_name"
  shows "create_model env model_name p nc ic cp s e nj kwargs =
           (Inl (UnknownModel (''Unknown model ('' @ model_name @ '')'')),
            snd (normalize_kwargs env (s, e, nj) model_name kwargs)
              @ [SetLayerConfig (s, e, nj), RestoreLayerConfig])"
  using assms by (simp add: create_model_def then_run_def instantiate_unregistered Let_def)

lemma create_model_registered:
  assumes "fst (normalize_kwargs env (s, e, nj) model_name kwargs) = Inr kw'"
    and "is_model env model_name"
  shows "create_model env model_name p nc ic cp s e nj kwargs =
           (let a = [(''pretrained'', p), (''num_classes'', nc), (''in_chans'', ic)];
                tr = snd (normalize_kwargs env (s, e, nj) model_name kwargs)
                       @ [SetLayerConfig (s, e, nj), ModelEntrypoint model_name,
                          CreateFn model_name a kw', RestoreLayerConfig]
            in case model_entrypoint env model_name (s, e, nj) a kw' of
                 Inl x \<Rightarrow> (Inl (Raised x), tr)
               | Inr m \<Rightarrow>
                   if cp \<noteq> [] then
                     (case load_checkpoint env m cp of Inl x \<Rightarrow> Inl (Raised x) | Inr _ \<Rightarrow> Inr m,
                      tr @ [LoadCheckpoint m cp])
                   else (Inr m, tr))"
  using assms
  by (simp add: create_model_def then_run_def instantiate_registered call_def emit_def ret_def
      Let_def split: sum.splits)

lemma create_fn_called:
  assumes "CreateFn n a kw' \<in> set (snd (create_model env model_name p nc ic cp s e nj kwargs))"
  shows "is_model env model_name \<and> n = model_name
         \<and> a = [(''pretrained'', p), (''num_classes'', nc), (''in_chans'', ic)]
         \<and> fst (normalize_kwargs env (s, e, nj) model_name kwargs) = Inr kw'"
proof (cases "fst (normalize_kwargs env (s, e, nj) model_name kwargs)")
  case (Inl er)
  with assms have "CreateFn n a kw' \<in> set (snd (normalize_kwargs env (s, e, nj) model_name kwargs))"
    by (simp add: create_model_not_normalized)
  then show ?thesis
    by (auto dest: normalize_kwargs_events)
next
  case (Inr kw)
  have no: "CreateFn n a kw' \<notin> set (snd (normalize_kwargs env (s, e, nj) model_name kwargs))"
    by (auto dest: normalize_kwargs_events)
  show ?thesis
  proof (cases "is_model env model_name")
    case True
    from assms no show ?thesis
      by (auto simp add: create_model_registered [OF Inr True] Let_def Inr True
          split: sum.splits if_splits)
  next
    case False
    from assms no show ?thesis
      by (simp add: create_model_unregistered [OF Inr False])
  qed
qed

text \<open>What the constructor finds under a key, from the steps of the normalisation.\<close>

lemma normalized_lookup:
  assumes n: "fst (normalize_kwargs (env :: 'm collaborators) c model_name kwargs) = Inr kw'"
    and d: "is_dict kwargs"
  shows "\<exists>kw3. is_dict kw3 \<and> kw' = drop_unset kw3
           \<and> (\<exists>ln. get_norm env
                 (if get_world_size env > 1
                     \<and> get kwargs ''norm_layer'' (PStr ''BN'')
                         \<notin> {PStr ''SyncBN'', PStr ''nnSyncBN'', PStr ''naiveSyncBN''}
                  then PStr ''SyncBN'' else get kwargs ''norm_layer'' (PStr ''BN'')) = Inr ln
               \<and> map_of kw3 ''norm_layer'' = Some ln)
           \<and> (if is_model_in_modules env model_name [''efficientnet'', ''mobilenetv3'']
               then \<forall>k \<in> {''bn_tf'', ''bn_momentum'', ''bn_eps'', ''act_layer''}.
                      map_of kw3 k = map_of kwargs k
               else map_of kw3 ''bn_tf'' = None \<and> map_of kw3 ''bn_momentum'' = None
                    \<and> map_of kw3 ''bn_eps'' = None
                    \<and> (\<exists>la. get_act_layer env c (get kwargs ''act_layer'' (PStr ''relu'')) = Inr la
                          \<and> map_of kw3 ''act_layer'' = Some la))
           \<and> map_of kw3 ''drop_connect_rate'' = None
           \<and> map_of kw3 ''drop_path_rate'' =
               (if get kwargs ''drop_connect_rate'' PNone \<noteq> PNone
                   \<and> get kwargs ''drop_path_rate'' PNone = PNone
                then Some (get kwargs ''drop_connect_rate'' PNone)
                else map_of kwargs ''drop_path_rate'')
           \<and> (\<forall>k. k \<notin> {''bn_tf'', ''bn_momentum'', ''bn_eps'', ''act_layer'', ''norm_layer'',
                        ''drop_connect_rate'', ''drop_path_rate''}
                 \<longrightarrow> map_of kw3 k = map_of kwargs k)"
proof -
  from normalize_kwargs_Inr [OF n] obtain kw1 kw2 kw3 where
    s1: "fst (resolve_act_layer env c model_name kwargs) = Inr kw1" and
    s2: "fst (resolve_norm_layer env kw1) = Inr kw2" and
    s3: "fst (migrate_drop_connect kw2 :: (kwargs, 'm) run) = Inr kw3" and
    kw': "kw' = drop_unset kw3"
    by blast
  have d3: "is_dict kw3"
    using resolve_act_layer_is_dict [OF s1 d] resolve_norm_layer_is_dict [OF s2]
      migrate_drop_connect_is_dict [OF s3] by blast
  note a1 = resolve_act_layer_Inr [OF s1]
  note a2 = resolve_norm_layer_Inr [OF s2]
  note a3 = migrate_drop_connect_Inr [OF s3]
  have g1: "get kw1 ''norm_layer'' d' = get kwargs ''norm_layer'' d'"
     "get kw1 ''drop_connect_rate'' d' = get kwargs ''drop_connect_rate'' d'"
     "get kw1 ''drop_path_rate'' d' = get kwargs ''drop_path_rate'' d'" for d'
    using a1 by (auto simp add: get_def split: if_splits)
  from a2 obtain ln where
    ln: "get_norm env
           (if get_world_size env > 1
               \<and> get kwargs ''norm_layer'' (PStr ''BN'')
                   \<notin> {PStr ''SyncBN'', PStr ''nnSyncBN'', PStr ''naiveSyncBN''}
            then PStr ''SyncBN'' else get kwargs ''norm_layer'' (PStr ''BN'')) = Inr ln" and
    m2: "map_of kw2 = (map_of kw1)(''norm_layer'' \<mapsto> ln)"
    unfolding g1 by blast
  have g2: "get kw2 ''drop_connect_rate'' d' = get kwargs ''drop_connect_rate'' d'"
     "get kw2 ''drop_path_rate'' d' = get kwargs ''drop_path_rate'' d'" for d'
    using g1 [of d'] by (simp_all add: get_def m2)
  have m3: "map_of kw3 =
           (if get kwargs ''drop_connect_rate'' PNone \<noteq> PNone \<and> get kwargs ''drop_path_rate'' PNone = PNone
            then (map_of kw2)(''drop_connect_rate'' := None,
                              ''drop_path_rate'' \<mapsto> get kwargs ''drop_connect_rate'' PNone)
            else (map_of kw2)(''drop_connect_rate'' := None))"
    using a3 unfolding g2 .
  have p1: "\<exists>ln'. get_norm env
                 (if get_world_size env > 1
                     \<and> get kwargs ''norm_layer'' (PStr ''BN'')
                         \<notin> {PStr ''SyncBN'', PStr ''nnSyncBN'', PStr ''naiveSyncBN''}
                  then PStr ''SyncBN'' else get kwargs ''norm_layer'' (PStr ''BN'')) = Inr ln'
               \<and> map_of kw3 ''norm_layer'' = Some ln'"
    using ln by (simp add: m3 m2)
  have p2: "if is_model_in_modules env model_name [''efficientnet'', ''mobilenetv3'']
               then \<forall>k \<in> {''bn_tf'', ''bn_momentum'', ''bn_eps'', ''act_layer''}.
                      map_of kw3 k = map_of kwargs k
               else map_of kw3 ''bn_tf'' = None \<and> map_of kw3 ''bn_momentum'' = None
                    \<and> map_of kw3 ''bn_eps'' = None
                    \<and> (\<exists>la. get_act_layer env c (get kwargs ''act_layer'' (PStr ''relu'')) = Inr la
                          \<and> map_of kw3 ''act_layer'' = Some la)"
    using a1 by (auto simp add: m3 m2 split: if_splits)
  have p3: "map_of kw3 ''drop_connect_rate'' = None"
    by (simp add: m3)
  have p4: "map_of kw3 ''drop_path_rate'' =
               (if get kwargs ''drop_connect_rate'' PNone \<noteq> PNone
                   \<and> get kwargs ''drop_path_rate'' PNone = PNone
                then Some (get kwargs ''drop_connect_rate'' PNone)
                else map_of kwargs ''drop_path_rate'')"
    using a1 by (auto simp add: m3 m2 split: if_splits)
  have p5: "\<forall>k. k \<notin> {''bn_tf'', ''bn_momentum'', ''bn_eps'', ''act_layer'', ''norm_layer'',
                        ''drop_connect_rate'', ''drop_path_rate''}
                 \<longrightarrow> map_of kw3 k = map_of kwargs k"
    using a1 by (auto simp add: m3 m2 split: if_splits)
  from d3 kw' p1 p2 p3 p4 p5 show ?thesis by blast
qed

lemma resolve_act_layer_Inl:
  "fst (resolve_act_layer env c model_name kwargs) = Inl er \<Longrightarrow> \<exists>x. er = Raised x"
  by (auto simp add: resolve_act_layer_def Let_def run_simps fst_then_run_Inl fst_call_Inl
      split_beta split: if_splits)

lemma resolve_norm_layer_Inl:
  "fst (resolve_norm_layer env kwargs) = Inl er \<Longrightarrow> \<exists>x. er = Raised x"
  by (auto simp add: resolve_norm_layer_def Let_def run_simps fst_then_run_Inl fst_call_Inl
      split_beta split: if_splits)

lemma format_f_Some:
  "format_f v = Some er \<Longrightarrow> er = FormatTypeError v \<or> er = FormatOverflowError v"
  by (cases v) (auto split: if_splits)

lemma migrate_drop_connect_Inl:
  "fst (migrate_drop_connect kwargs) = Inl er \<Longrightarrow>
     (\<exists>v. er = FormatTypeError v) \<or> (\<exists>v. er = FormatOverflowError v)"
  by (auto simp add: migrate_drop_connect_def Let_def run_simps fst_then_run_Inl
      split_beta split: if_splits option.splits dest: format_f_Some)

lemma normalize_kwargs_Inl:
  assumes "fst (normalize_kwargs env c model_name kwargs) = Inl er"
  shows "(\<exists>x. er = Raised x) \<or> (\<exists>v. er = FormatTypeError v) \<or> (\<exists>v. er = FormatOverflowError v)"
  using assms
  by (auto simp add: normalize_kwargs_def fst_then_run_Inl fst_ret
      dest: resolve_act_layer_Inl resolve_norm_layer_Inl migrate_drop_connect_Inl)

lemma create_model_layer_config:
  assumes "SetLayerConfig c \<in> set (snd (create_model env model_name p nc ic cp s e nj kwargs))"
  shows "c = (s, e, nj)"
proof (cases "fst (normalize_kwargs env (s, e, nj) model_name kwargs)")
  case (Inl er)
  with assms show ?thesis
    by (auto simp add: create_model_not_normalized dest: normalize_kwargs_events)
next
  case (Inr kw)
  show ?thesis
  proof (cases "is_model env model_name")
    case True
    from assms show ?thesis
      by (auto simp add: create_model_registered [OF Inr True] Let_def
          split: sum.splits if_splits dest: normalize_kwargs_events)
  next
    case False
    from assms show ?thesis
      by (auto simp add: create_model_unregistered [OF Inr False] dest: normalize_kwargs_events)
  qed
qed


subsection \<open>Runs on the example registry\<close>

lemma demo_run_resnet50:
  "create_model demo_registry ''resnet50'' PNone (PInt 1000) (PInt 3) ''w.pth'' None None None
     [(''drop_connect_rate'', PFloat 1 (-2)), (''bn_tf'', PBool True), (''global_pool'', PNone)]
   = (Inr 8,
      [SetLayerConfig (None, None, None), RestoreLayerConfig,
       Print ''conver norm_layer {} to SyncBN'' [PStr ''BN''],
       Print (''WARNING: 'drop_connect' as an argument is deprecated, please use 'drop_path'.''
              @ '' Setting drop_path to %f.'') [PFloat 1 (-2)],
       SetLayerConfig (None, None, None), ModelEntrypoint ''resnet50'',
       CreateFn ''resnet50''
         [(''pretrained'', PNone), (''num_classes'', PInt 1000), (''in_chans'', PInt 3)]
         [(''act_layer'', PObj 1), (''norm_layer'', PObj 11), (''drop_path_rate'', PFloat 1 (-2))],
       RestoreLayerConfig, LoadCheckpoint 8 ''w.pth''])"
  by code_simp

lemma demo_run_efficientnet:
  "create_model demo_registry ''efficientnet_b0'' (PBool False) (PInt 1000) (PInt 3) [] None None None
     [(''bn_momentum'', PNone), (''act_layer'', PStr ''swish''), (''bn_eps'', PFloat 1 (-3))]
   = (Inr 15,
      [Print ''conver norm_layer {} to SyncBN'' [PStr ''BN''],
       SetLayerConfig (None, None, None), ModelEntrypoint ''efficientnet_b0'',
       CreateFn ''efficientnet_b0''
         [(''pretrained'', PBool False), (''num_classes'', PInt 1000), (''in_chans'', PInt 3)]
         [(''act_layer'', PStr ''swish''), (''bn_eps'', PFloat 1 (-3)), (''norm_layer'', PObj 11)],
       RestoreLayerConfig])"
  by code_simp

lemma demo_run_unknown:
  "create_model demo_registry ''vgg'' (PBool False) (PInt 1000) (PInt 3) [] None None None []
   = (Inl (UnknownModel ''Unknown model (vgg)''),
      [SetLayerConfig (None, None, None), RestoreLayerConfig,
       Print ''conver norm_layer {} to SyncBN'' [PStr ''BN''],
       SetLayerConfig (None, None, None), RestoreLayerConfig])"
  by code_simp

lemma demo_normalize_resnet50:
  "normalize_kwargs demo_registry (None, None, None) ''resnet50''
     [(''drop_connect_rate'', PFloat 1 (-2)), (''bn_tf'', PBool True), (''global_pool'', PNone)]
   = (Inr [(''act_layer'', PObj 1), (''norm_layer'', PObj 11), (''drop_path_rate'', PFloat 1 (-2))],
      [SetLayerConfig (None, None, None), RestoreLayerConfig,
       Print ''conver norm_layer {} to SyncBN'' [PStr ''BN''],
       Print (''WARNING: 'drop_connect' as an argument is deprecated, please use 'drop_path'.''
              @ '' Setting drop_path to %f.'') [PFloat 1 (-2)]])"
  by code_simp

lemma demo_run_build_backbone:
  "build_backbone demo_registry (demo_cfg (PStr ''infer''))
   = (Inr 8,
      [SetLayerConfig (Some True, Some False, Some True), RestoreLayerConfig,
       Print ''conver norm_layer {} to SyncBN'' [PStr ''BN''],
       SetLayerConfig (Some True, Some False, Some True), ModelEntrypoint ''resnet50'',
       CreateFn ''resnet50''
         [(''pretrained'', PBool True), (''num_classes'', PInt 10), (''in_chans'', PInt 3)]
         [(''global_pool'', PStr ''avg''), (''act_layer'', PObj 1), (''norm_layer'', PObj 11)],
       RestoreLayerConfig])"
  by code_simp

subsection \<open>When the normalisation returns\<close>

lemma call_returns: "\<not> isl r \<Longrightarrow> \<exists>v. fst (call r) = Inr v"
  by (cases r) (simp_all add: call_def)

lemma resolve_act_layer_returns:
  assumes "is_model_in_modules env model_name [''efficientnet'', ''mobilenetv3'']
           \<or> \<not> isl (get_act_layer env c (get kwargs ''act_layer'' (PStr ''relu'')))"
  shows "\<exists>kw1. fst (resolve_act_layer env c model_name kwargs) = Inr kw1"
proof (cases "is_model_in_modules env model_name [''efficientnet'', ''mobilenetv3'']")
  case True
  then show ?thesis
    by (simp add: resolve_act_layer_def fst_ret)
next
  case False
  with assms obtain layer where
    "get_act_layer env c (get kwargs ''act_layer'' (PStr ''relu'')) = Inr layer"
    by (cases "get_act_layer env c (get kwargs ''act_layer'' (PStr ''relu''))") auto
  with False show ?thesis
    by (simp add: resolve_act_layer_def Let_def split_beta fst_with fst_then_run_Inr
        fst_call_Inr fst_ret fst_pop get_pop_other)
qed

lemma resolve_norm_layer_returns:
  assumes "\<not> isl (get_norm env
             (if get_world_size env > 1
                 \<and> get kw1 ''norm_layer'' (PStr ''BN'')
                     \<notin> {PStr ''SyncBN'', PStr ''nnSyncBN'', PStr ''naiveSyncBN''}
              then PStr ''SyncBN'' else get kw1 ''norm_layer'' (PStr ''BN'')))"
  shows "\<exists>kw2. fst (resolve_norm_layer env kw1) = Inr kw2"
proof -
  from assms obtain layer where
    "get_norm env
       (if get_world_size env > 1
           \<and> get kw1 ''norm_layer'' (PStr ''BN'')
               \<notin> {PStr ''SyncBN'', PStr ''nnSyncBN'', PStr ''naiveSyncBN''}
        then PStr ''SyncBN'' else get kw1 ''norm_layer'' (PStr ''BN'')) = Inr layer"
    by (cases "get_norm env
       (if get_world_size env > 1
           \<and> get kw1 ''norm_layer'' (PStr ''BN'')
               \<notin> {PStr ''SyncBN'', PStr ''nnSyncBN'', PStr ''naiveSyncBN''}
        then PStr ''SyncBN'' else get kw1 ''norm_layer'' (PStr ''BN''))") auto
  then show ?thesis
    by (auto simp add: resolve_norm_layer_def Let_def split_beta fst_then_run_Inr
        fst_call_Inr fst_ret fst_emit fst_pop split: if_splits)
qed

lemma migrate_drop_connect_returns:
  assumes "get kw2 ''drop_connect_rate'' PNone = PNone
           \<or> get kw2 ''drop_path_rate'' PNone \<noteq> PNone
           \<or> format_f (get kw2 ''drop_connect_rate'' PNone) = None"
  shows "\<exists>kw3. fst (migrate_drop_connect kw2 :: (kwargs, 'm) run) = Inr kw3"
  using assms
  by (auto simp add: migrate_drop_connect_def Let_def split_beta fst_then_run_Inr
      fst_ret fst_emit fst_pop get_pop_other)

lemma normalize_kwargs_returns:
  assumes act: "is_model_in_modules env model_name [''efficientnet'', ''mobilenetv3'']
           \<or> \<not> isl (get_act_layer env c (get kwargs ''act_layer'' (PStr ''relu'')))"
    and norm: "\<not> isl (get_norm env
             (if get_world_size env > 1
                 \<and> get kwargs ''norm_layer'' (PStr ''BN'')
                     \<notin> {PStr ''SyncBN'', PStr ''nnSyncBN'', PStr ''naiveSyncBN''}
              then PStr ''SyncBN'' else get kwargs ''norm_layer'' (PStr ''BN'')))"
    and fmt: "get kwargs ''drop_connect_rate'' PNone = PNone
           \<or> get kwargs ''drop_path_rate'' PNone \<noteq> PNone
           \<or> format_f (get kwargs ''drop_connect_rate'' PNone) = None"
  shows "\<exists>kw'. fst (normalize_kwargs (env :: 'm collaborators) c model_name kwargs) = Inr kw'"
proof -
  from resolve_act_layer_returns [OF act] obtain kw1 where
    s1: "fst (resolve_act_layer env c model_name kwargs) = Inr kw1" ..
  have g1: "get kw1 ''norm_layer'' d' = get kwargs ''norm_layer'' d'"
     "get kw1 ''drop_connect_rate'' d' = get kwargs ''drop_connect_rate'' d'"
     "get kw1 ''drop_path_rate'' d' = get kwargs ''drop_path_rate'' d'" for d'
    using resolve_act_layer_Inr [OF s1] by (auto simp add: get_def split: if_splits)
  from norm have "\<not> isl (get_norm env
             (if get_world_size env > 1
                 \<and> get kw1 ''norm_layer'' (PStr ''BN'')
                     \<notin> {PStr ''SyncBN'', PStr ''nnSyncBN'', PStr ''naiveSyncBN''}
              then PStr ''SyncBN'' else get kw1 ''norm_layer'' (PStr ''BN'')))"
    unfolding g1 .
  from resolve_norm_layer_returns [OF this] obtain kw2 where
    s2: "fst (resolve_norm_layer env kw1) = Inr kw2" ..
  from resolve_norm_layer_Inr [OF s2] obtain ln where
    m2: "map_of kw2 = (map_of kw1)(''norm_layer'' \<mapsto> ln)"
    by (elim exE conjE) (rule that)
  have g2: "get kw2 ''drop_connect_rate'' d' = get kwargs ''drop_connect_rate'' d'"
     "get kw2 ''drop_path_rate'' d' = get kwargs ''drop_path_rate'' d'" for d'
    using g1 [of d'] by (simp_all add: get_def m2)
  from fmt have "get kw2 ''drop_connect_rate'' PNone = PNone
           \<or> get kw2 ''drop_path_rate'' PNone \<noteq> PNone
           \<or> format_f (get kw2 ''drop_connect_rate'' PNone) = None"
    unfolding g2 .
  from migrate_drop_connect_returns [OF this] obtain kw3 where
    s3: "fst (migrate_drop_connect kw2 :: (kwargs, 'm) run) = Inr kw3" ..
  from s1 s2 s3 show ?thesis
    by (simp add: normalize_kwargs_def fst_then_run_Inr fst_ret)
qed

lemma create_fn_reached:
  assumes "is_model env model_name"
    and "fst (normalize_kwargs env (s, e, nj) model_name kwargs) = Inr kw'"
  shows "CreateFn model_name [(''pretrained'', p), (''num_classes'', nc), (''in_chans'', ic)] kw'
           \<in> set (snd (create_model env model_name p nc ic cp s e nj kwargs))"
  by (simp add: create_model_registered [OF assms(2) assms(1)] Let_def split: sum.splits)

lemma demo_run_single_unset_norm:
  "create_model single_registry ''resnet50'' (PBool False) (PInt 1000) (PInt 3) [] None None None
     [(''norm_layer'', PStr [])]
   = (Inr 8,
      [SetLayerConfig (None, None, None), RestoreLayerConfig,
       SetLayerConfig (None, None, None), ModelEntrypoint ''resnet50'',
       CreateFn ''resnet50''
         [(''pretrained'', PBool False), (''num_classes'', PInt 1000), (''in_chans'', PInt 3)]
         [(''act_layer'', PObj 1)],
       RestoreLayerConfig])"
  by code_simp


section \<open>The claims\<close>

text \<open>
  C1. When \<open>model_name\<close> is not registered, \<^verbatim>\<open>create_model\<close> raises and no model
  constructor is called; where the keyword arguments were normalised, the exception is
  the \<open>Unknown model\<close> error of the lookup. When \<open>model_name\<close> is registered, no run ends
  in that error, and once the keyword arguments are normalised the registry entrypoint
  is asked for and the constructor is called with \<^verbatim>\<open>model_args\<close> and the normalised
  keyword arguments.
\<close>

theorem create_model_dispatch:
  "(\<not> is_model env model_name \<longrightarrow>
      (\<exists>er. fst (create_model env model_name pretrained num_classes in_chans checkpoint_path
                   scriptable exportable no_jit kwargs) = Inl er)
    \<and> (\<forall>n a kw. CreateFn n a kw
          \<notin> set (snd (create_model env model_name pretrained num_classes in_chans checkpoint_path
                         scriptable exportable no_jit kwargs)))
    \<and> (\<forall>kw'. fst (normalize_kwargs env (scriptable, exportable, no_jit) model_name kwargs) = Inr kw'
          \<longrightarrow> fst (create_model env model_name pretrained num_classes in_chans checkpoint_path
                      scriptable exportable no_jit kwargs)
                = Inl (UnknownModel (''Unknown model ('' @ model_name @ '')''))))
   \<and> (is_model env model_name \<longrightarrow>
      (\<forall>msg. fst (create_model env model_name pretrained num_classes in_chans checkpoint_path
                    scriptable exportable no_jit kwargs) \<noteq> Inl (UnknownModel msg))
    \<and> (\<forall>kw'. fst (normalize_kwargs env (scriptable, exportable, no_jit) model_name kwargs) = Inr kw'
          \<longrightarrow> (\<exists>tr. snd (create_model env model_name pretrained num_classes in_chans
                             checkpoint_path scriptable exportable no_jit kwargs)
                 = snd (normalize_kwargs env (scriptable, exportable, no_jit) model_name kwargs)
                   @ SetLayerConfig (scriptable, exportable, no_jit)
                   # ModelEntrypoint model_name
                   # CreateFn model_name
                       [(''pretrained'', pretrained), (''num_classes'', num_classes),
                        (''in_chans'', in_chans)] kw'
                   # tr)))"
proof (intro conjI impI allI)
  assume u: "\<not> is_model env model_name"
  show "\<exists>er. fst (create_model env model_name pretrained num_classes in_chans checkpoint_path
                   scriptable exportable no_jit kwargs) = Inl er"
  proof (cases "fst (normalize_kwargs env (scriptable, exportable, no_jit) model_name kwargs)")
    case (Inl er)
    then show ?thesis by (simp add: create_model_not_normalized)
  next
    case (Inr kw)
    then show ?thesis by (simp add: create_model_unregistered [OF Inr u])
  qed
next
  fix n a kw
  assume u: "\<not> is_model env model_name"
  then show "CreateFn n a kw
          \<notin> set (snd (create_model env model_name pretrained num_classes in_chans checkpoint_path
                         scriptable exportable no_jit kwargs))"
    by (auto dest: create_fn_called)
next
  fix kw'
  assume "\<not> is_model env model_name"
    and "fst (normalize_kwargs env (scriptable, exportable, no_jit) model_name kwargs) = Inr kw'"
  then show "fst (create_model env model_name pretrained num_classes in_chans checkpoint_path
                      scriptable exportable no_jit kwargs)
                = Inl (UnknownModel (''Unknown model ('' @ model_name @ '')''))"
    by (simp add: create_model_unregistered)
next
  fix msg
  assume r: "is_model env model_name"
  show "fst (create_model env model_name pretrained num_classes in_chans checkpoint_path
                    scriptable exportable no_jit kwargs) \<noteq> Inl (UnknownModel msg)"
  proof (cases "fst (normalize_kwargs env (scriptable, exportable, no_jit) model_name kwargs)")
    case (Inl er)
    then show ?thesis
      by (auto simp add: create_model_not_normalized dest: normalize_kwargs_Inl)
  next
    case (Inr kw)
    then show ?thesis
      by (simp add: create_model_registered [OF Inr r] Let_def split: sum.splits)
  qed
next
  fix kw'
  assume r: "is_model env model_name"
    and n: "fst (normalize_kwargs env (scriptable, exportable, no_jit) model_name kwargs) = Inr kw'"
  show "\<exists>tr. snd (create_model env model_name pretrained num_classes in_chans
                             checkpoint_path scriptable exportable no_jit kwargs)
                 = snd (normalize_kwargs env (scriptable, exportable, no_jit) model_name kwargs)
                   @ SetLayerConfig (scriptable, exportable, no_jit)
                   # ModelEntrypoint model_name
                   # CreateFn model_name
                       [(''pretrained'', pretrained), (''num_classes'', num_classes),
                        (''in_chans'', in_chans)] kw'
                   # tr"
    by (simp add: create_model_registered [OF n r] Let_def split: sum.splits)
qed

theorem create_model_dispatch_witness:
  "\<not> is_model demo_registry ''vgg''
   \<and> fst (create_model demo_registry ''vgg'' (PBool False) (PInt 1000) (PInt 3) [] None None None [])
       = Inl (UnknownModel ''Unknown model (vgg)'')
   \<and> (\<forall>n a kw. CreateFn n a kw
          \<notin> set (snd (create_model demo_registry ''vgg'' (PBool False) (PInt 1000) (PInt 3) []
                         None None None [])))
   \<and> is_model demo_registry ''resnet50''
   \<and> (\<exists>tr. snd (create_model demo_registry ''resnet50'' PNone (PInt 1000) (PInt 3) ''w.pth''
                   None None None
                   [(''drop_connect_rate'', PFloat 1 (-2)), (''bn_tf'', PBool True),
                    (''global_pool'', PNone)])
        = snd (normalize_kwargs demo_registry (None, None, None) ''resnet50''
                 [(''drop_connect_rate'', PFloat 1 (-2)), (''bn_tf'', PBool True),
                  (''global_pool'', PNone)])
          @ SetLayerConfig (None, None, None) # ModelEntrypoint ''resnet50''
          # CreateFn ''resnet50''
              [(''pretrained'', PNone), (''num_classes'', PInt 1000), (''in_chans'', PInt 3)]
              [(''act_layer'', PObj 1), (''norm_layer'', PObj 11),
               (''drop_path_rate'', PFloat 1 (-2))]
          # tr)"
proof -
  have u: "\<not> is_model demo_registry ''vgg''" and r: "is_model demo_registry ''resnet50''"
    by (simp_all add: demo_registry_def)
  have n: "fst (normalize_kwargs demo_registry (None, None, None) ''resnet50''
                 [(''drop_connect_rate'', PFloat 1 (-2)), (''bn_tf'', PBool True),
                  (''global_pool'', PNone)])
           = Inr [(''act_layer'', PObj 1), (''norm_layer'', PObj 11),
                  (''drop_path_rate'', PFloat 1 (-2))]"
    by (simp add: demo_normalize_resnet50)
  have e: "fst (normalize_kwargs demo_registry (None, None, None) ''vgg'' []) = Inr [(''act_layer'', PObj 1), (''norm_layer'', PObj 11)]"
    by code_simp
  from u r n e
    create_model_dispatch [of demo_registry "''vgg''" "PBool False" "PInt 1000" "PInt 3" "[]"
      None None None "[]"]
    create_model_dispatch [of demo_registry "''resnet50''" PNone "PInt 1000" "PInt 3" "''w.pth''"
      None None None "[(''drop_connect_rate'', PFloat 1 (-2)), (''bn_tf'', PBool True),
                    (''global_pool'', PNone)]"]
  show ?thesis
    by simp
qed

text \<open>
  C2, as the code has it. The \<^verbatim>\<open>norm_layer\<close> keyword (\<^verbatim>\<open>'BN'\<close> when absent) is resolved
  with the world size: with more than one process and a name other than \<^verbatim>\<open>'SyncBN'\<close>,
  \<^verbatim>\<open>'nnSyncBN'\<close>, \<^verbatim>\<open>'naiveSyncBN'\<close> the lookup is \<^verbatim>\<open>get_norm('SyncBN')\<close>, otherwise it is
  \<^verbatim>\<open>get_norm\<close> of the name asked for. Every constructor call gets the layer so found as
  \<^verbatim>\<open>norm_layer\<close>, and no \<^verbatim>\<open>norm_layer\<close> keyword at all when the lookup gives None
  (line 68). The constructor is called whenever the model is registered, the lookups
  return and the deprecation message of lines 61-62, if it is due, can be formatted.
  In the run below of one process the lookup of the empty name gives None and the
  constructor gets no \<^verbatim>\<open>norm_layer\<close>.
\<close>

theorem create_model_norm_layer:
  assumes "is_dict kwargs"
  shows "(\<forall>n a kw'.
            CreateFn n a kw'
              \<in> set (snd (create_model env model_name pretrained num_classes in_chans
                             checkpoint_path scriptable exportable no_jit kwargs))
            \<longrightarrow> (\<exists>layer.
                   get_norm env
                     (if get_world_size env > 1
                         \<and> get kwargs ''norm_layer'' (PStr ''BN'')
                             \<notin> {PStr ''SyncBN'', PStr ''nnSyncBN'', PStr ''naiveSyncBN''}
                      then PStr ''SyncBN''
                      else get kwargs ''norm_layer'' (PStr ''BN'')) = Inr layer
                 \<and> map_of kw' ''norm_layer'' = (if layer = PNone then None else Some layer)))
       \<and> (\<forall>layer.
            is_model env model_name
            \<and> (is_model_in_modules env model_name [''efficientnet'', ''mobilenetv3'']
               \<or> \<not> isl (get_act_layer env (scriptable, exportable, no_jit)
                           (get kwargs ''act_layer'' (PStr ''relu''))))
            \<and> get_norm env
                 (if get_world_size env > 1
                     \<and> get kwargs ''norm_layer'' (PStr ''BN'')
                         \<notin> {PStr ''SyncBN'', PStr ''nnSyncBN'', PStr ''naiveSyncBN''}
                  then PStr ''SyncBN''
                  else get kwargs ''norm_layer'' (PStr ''BN'')) = Inr layer
            \<and> (get kwargs ''drop_connect_rate'' PNone = PNone
               \<or> get kwargs ''drop_path_rate'' PNone \<noteq> PNone
               \<or> format_f (get kwargs ''drop_connect_rate'' PNone) = None)
            \<longrightarrow> (\<exists>kw'.
                   CreateFn model_name
                     [(''pretrained'', pretrained), (''num_classes'', num_classes),
                      (''in_chans'', in_chans)] kw'
                     \<in> set (snd (create_model env model_name pretrained num_classes in_chans
                                    checkpoint_path scriptable exportable no_jit kwargs))
                 \<and> map_of kw' ''norm_layer'' = (if layer = PNone then None else Some layer)))"
proof -
  let ?ch = "if get_world_size env > 1
                 \<and> get kwargs ''norm_layer'' (PStr ''BN'')
                     \<notin> {PStr ''SyncBN'', PStr ''nnSyncBN'', PStr ''naiveSyncBN''}
             then PStr ''SyncBN''
             else get kwargs ''norm_layer'' (PStr ''BN'')"
  let ?tr = "snd (create_model env model_name pretrained num_classes in_chans
                    checkpoint_path scriptable exportable no_jit kwargs)"
  have each: "\<exists>layer. get_norm env ?ch = Inr layer
                \<and> map_of kw' ''norm_layer'' = (if layer = PNone then None else Some layer)"
    if c: "CreateFn n a kw' \<in> set ?tr" for n a kw'
  proof -
    from create_fn_called [OF c]
    have n: "fst (normalize_kwargs env (scriptable, exportable, no_jit) model_name kwargs) = Inr kw'"
      by simp
    from normalized_lookup [OF n assms] obtain kw3 ln where
      "is_dict kw3" and "kw' = drop_unset kw3" and
      "get_norm env ?ch = Inr ln" and
      "map_of kw3 ''norm_layer'' = Some ln"
      by (elim exE conjE) (rule that)
    then show ?thesis
      by (simp add: map_of_drop_unset)
  qed
  have reached: "\<exists>kw'. CreateFn model_name
                     [(''pretrained'', pretrained), (''num_classes'', num_classes),
                      (''in_chans'', in_chans)] kw' \<in> set ?tr
                 \<and> map_of kw' ''norm_layer'' = (if layer = PNone then None else Some layer)"
    if r: "is_model env model_name"
      and act: "is_model_in_modules env model_name [''efficientnet'', ''mobilenetv3'']
               \<or> \<not> isl (get_act_layer env (scriptable, exportable, no_jit)
                           (get kwargs ''act_layer'' (PStr ''relu'')))"
      and norm: "get_norm env ?ch = Inr layer"
      and fmt: "get kwargs ''drop_connect_rate'' PNone = PNone
               \<or> get kwargs ''drop_path_rate'' PNone \<noteq> PNone
               \<or> format_f (get kwargs ''drop_connect_rate'' PNone) = None"
    for layer
  proof -
    from norm have "\<not> isl (get_norm env ?ch)"
      by simp
    from normalize_kwargs_returns [OF act this fmt] obtain kw' where
      n: "fst (normalize_kwargs env (scriptable, exportable, no_jit) model_name kwargs) = Inr kw'" ..
    note c = create_fn_reached [OF r n, of pretrained num_classes in_chans checkpoint_path]
    from each [OF c] norm
    have "map_of kw' ''norm_layer'' = (if layer = PNone then None else Some layer)"
      by auto
    with c show ?thesis
      by (intro exI conjI)
  qed
  show ?thesis
  proof (intro conjI allI impI)
    fix n a kw'
    assume "CreateFn n a kw' \<in> set ?tr"
    then show "\<exists>layer. get_norm env ?ch = Inr layer
                \<and> map_of kw' ''norm_layer'' = (if layer = PNone then None else Some layer)"
      by (rule each)
  next
    fix layer
    assume "is_model env model_name
            \<and> (is_model_in_modules env model_name [''efficientnet'', ''mobilenetv3'']
               \<or> \<not> isl (get_act_layer env (scriptable, exportable, no_jit)
                           (get kwargs ''act_layer'' (PStr ''relu''))))
            \<and> get_norm env ?ch = Inr layer
            \<and> (get kwargs ''drop_connect_rate'' PNone = PNone
               \<or> get kwargs ''drop_path_rate'' PNone \<noteq> PNone
               \<or> format_f (get kwargs ''drop_connect_rate'' PNone) = None)"
    then show "\<exists>kw'. CreateFn model_name
                     [(''pretrained'', pretrained), (''num_classes'', num_classes),
                      (''in_chans'', in_chans)] kw' \<in> set ?tr
                 \<and> map_of kw' ''norm_layer'' = (if layer = PNone then None else Some layer)"
      by (elim conjE) (rule reached)
  qed
qed

theorem create_model_norm_layer_witness:
  "is_dict [(''drop_connect_rate'', PFloat 1 (-2)), (''bn_tf'', PBool True),
            (''global_pool'', PNone)]
   \<and> is_model demo_registry ''resnet50''
   \<and> 1 < get_world_size demo_registry
   \<and> get_norm demo_registry (PStr ''SyncBN'') = Inr (PObj 11)
   \<and> (\<exists>kw'. CreateFn ''resnet50''
               [(''pretrained'', PNone), (''num_classes'', PInt 1000), (''in_chans'', PInt 3)] kw'
               \<in> set (snd (create_model demo_registry ''resnet50'' PNone (PInt 1000) (PInt 3)
                             ''w.pth'' None None None
                             [(''drop_connect_rate'', PFloat 1 (-2)), (''bn_tf'', PBool True),
                              (''global_pool'', PNone)]))
            \<and> map_of kw' ''norm_layer'' = Some (PObj 11))
   \<and> is_dict []
   \<and> is_model single_registry ''resnet50''
   \<and> \<not> 1 < get_world_size single_registry
   \<and> get_norm single_registry (PStr ''BN'') = Inr (PObj 10)
   \<and> (\<exists>kw'. CreateFn ''resnet50''
               [(''pretrained'', PBool False), (''num_classes'', PInt 1000), (''in_chans'', PInt 3)]
               kw'
               \<in> set (snd (create_model single_registry ''resnet50'' (PBool False) (PInt 1000)
                             (PInt 3) [] None None None []))
            \<and> map_of kw' ''norm_layer'' = Some (PObj 10))"
proof -
  let ?K = "[(''drop_connect_rate'', PFloat 1 (-2)), (''bn_tf'', PBool True),
             (''global_pool'', PNone)]"
  have d1: "is_dict ?K" and d2: "is_dict []"
    by (simp_all add: is_dict_def)
  have r1: "is_model demo_registry ''resnet50''"
    and w1: "1 < get_world_size demo_registry"
    and n1: "get_norm demo_registry (PStr ''SyncBN'') = Inr (PObj 11)"
    by (simp_all add: demo_registry_def)
  have r2: "is_model single_registry ''resnet50''"
    and w2: "\<not> 1 < get_world_size single_registry"
    and n2: "get_norm single_registry (PStr ''BN'') = Inr (PObj 10)"
    by (simp_all add: single_registry_def demo_registry_def)
  have pre1: "is_model demo_registry ''resnet50''
            \<and> (is_model_in_modules demo_registry ''resnet50'' [''efficientnet'', ''mobilenetv3'']
               \<or> \<not> isl (get_act_layer demo_registry (None, None, None)
                           (get ?K ''act_layer'' (PStr ''relu''))))
            \<and> get_norm demo_registry
                 (if get_world_size demo_registry > 1
                     \<and> get ?K ''norm_layer'' (PStr ''BN'')
                         \<notin> {PStr ''SyncBN'', PStr ''nnSyncBN'', PStr ''naiveSyncBN''}
                  then PStr ''SyncBN''
                  else get ?K ''norm_layer'' (PStr ''BN'')) = Inr (PObj 11)
            \<and> (get ?K ''drop_connect_rate'' PNone = PNone
               \<or> get ?K ''drop_path_rate'' PNone \<noteq> PNone
               \<or> format_f (get ?K ''drop_connect_rate'' PNone) = None)"
    by (simp add: demo_registry_def get_def)
  have pre2: "is_model single_registry ''resnet50''
            \<and> (is_model_in_modules single_registry ''resnet50'' [''efficientnet'', ''mobilenetv3'']
               \<or> \<not> isl (get_act_layer single_registry (None, None, None)
                           (get [] ''act_layer'' (PStr ''relu''))))
            \<and> get_norm single_registry
                 (if get_world_size single_registry > 1
                     \<and> get [] ''norm_layer'' (PStr ''BN'')
                         \<notin> {PStr ''SyncBN'', PStr ''nnSyncBN'', PStr ''naiveSyncBN''}
                  then PStr ''SyncBN''
                  else get [] ''norm_layer'' (PStr ''BN'')) = Inr (PObj 10)
            \<and> (get [] ''drop_connect_rate'' PNone = PNone
               \<or> get [] ''drop_path_rate'' PNone \<noteq> PNone
               \<or> format_f (get [] ''drop_connect_rate'' PNone) = None)"
    by (simp add: single_registry_def demo_registry_def get_def)
  note t1 = create_model_norm_layer [OF d1, THEN conjunct2, rule_format, OF pre1,
      of PNone "PInt 1000" "PInt 3" "''w.pth''"]
  note t2 = create_model_norm_layer [OF d2, THEN conjunct2, rule_format, OF pre2,
      of "PBool False" "PInt 1000" "PInt 3" "[]"]
  from t1 have e1: "\<exists>kw'. CreateFn ''resnet50''
               [(''pretrained'', PNone), (''num_classes'', PInt 1000), (''in_chans'', PInt 3)] kw'
               \<in> set (snd (create_model demo_registry ''resnet50'' PNone (PInt 1000) (PInt 3)
                             ''w.pth'' None None None ?K))
            \<and> map_of kw' ''norm_layer'' = Some (PObj 11)"
    by simp
  from t2 have e2: "\<exists>kw'. CreateFn ''resnet50''
               [(''pretrained'', PBool False), (''num_classes'', PInt 1000), (''in_chans'', PInt 3)]
               kw'
               \<in> set (snd (create_model single_registry ''resnet50'' (PBool False) (PInt 1000)
                             (PInt 3) [] None None None []))
            \<and> map_of kw' ''norm_layer'' = Some (PObj 10)"
    by simp
  show ?thesis
    by (intro conjI) (rule d1 d2 r1 w1 n1 r2 w2 n2 e1 e2)+
qed

theorem create_model_norm_layer_counterexample:
  "\<not> 1 < get_world_size single_registry
   \<and> get_norm single_registry (get [(''norm_layer'', PStr [])] ''norm_layer'' (PStr ''BN''))
       = Inr PNone
   \<and> CreateFn ''resnet50''
       [(''pretrained'', PBool False), (''num_classes'', PInt 1000), (''in_chans'', PInt 3)]
       [(''act_layer'', PObj 1)]
       \<in> set (snd (create_model single_registry ''resnet50'' (PBool False) (PInt 1000) (PInt 3)
                     [] None None None [(''norm_layer'', PStr [])]))
   \<and> ''norm_layer'' \<notin> fst ` set [(''act_layer'', PObj 1)]"
proof -
  have 1: "\<not> 1 < get_world_size single_registry"
    by (simp add: single_registry_def demo_registry_def)
  have 2: "get_norm single_registry (get [(''norm_layer'', PStr [])] ''norm_layer'' (PStr ''BN''))
       = Inr PNone"
    by (simp add: single_registry_def demo_registry_def get_def)
  have 3: "CreateFn ''resnet50''
       [(''pretrained'', PBool False), (''num_classes'', PInt 1000), (''in_chans'', PInt 3)]
       [(''act_layer'', PObj 1)]
       \<in> set (snd (create_model single_registry ''resnet50'' (PBool False) (PInt 1000) (PInt 3)
                     [] None None None [(''norm_layer'', PStr [])]))"
    by (simp add: demo_run_single_unset_norm)
  have 4: "''norm_layer'' \<notin> fst ` set [(''act_layer'', PObj 1)]"
    by simp
  show ?thesis
    by (intro conjI) (rule 1 2 3 4)+
qed

text \<open>
  C3. With a registered name, normalised keyword arguments and a constructor that
  returned \<open>model\<close>: \<^verbatim>\<open>load_checkpoint\<close> is called exactly when \<^verbatim>\<open>checkpoint_path\<close> is
  not empty, once, on \<open>model\<close> and that path, after the constructor call; and a value
  that \<^verbatim>\<open>create_model\<close> returns is \<open>model\<close>.
\<close>

theorem create_model_checkpoint:
  assumes "is_model env model_name"
    and "fst (normalize_kwargs env (scriptable, exportable, no_jit) model_name kwargs) = Inr kw'"
    and "model_entrypoint env model_name (scriptable, exportable, no_jit)
           [(''pretrained'', pretrained), (''num_classes'', num_classes), (''in_chans'', in_chans)]
           kw' = Inr model"
  shows "(\<forall>m path.
            LoadCheckpoint m path
              \<in> set (snd (create_model env model_name pretrained num_classes in_chans
                             checkpoint_path scriptable exportable no_jit kwargs))
            \<longleftrightarrow> checkpoint_path \<noteq> [] \<and> m = model \<and> path = checkpoint_path)
       \<and> (\<exists>tr. snd (create_model env model_name pretrained num_classes in_chans
                       checkpoint_path scriptable exportable no_jit kwargs)
             = tr @ CreateFn model_name
                      [(''pretrained'', pretrained), (''num_classes'', num_classes),
                       (''in_chans'', in_chans)] kw'
                  # RestoreLayerConfig
                  # (if checkpoint_path \<noteq> [] then [LoadCheckpoint model checkpoint_path] else []))
       \<and> (\<forall>r. fst (create_model env model_name pretrained num_classes in_chans
                     checkpoint_path scriptable exportable no_jit kwargs) = Inr r
              \<longrightarrow> r = model)
       \<and> fst (create_model env model_name pretrained num_classes in_chans
                checkpoint_path scriptable exportable no_jit kwargs)
           = (if checkpoint_path \<noteq> [] then
                case load_checkpoint env model checkpoint_path of
                  Inl x \<Rightarrow> Inl (Raised x)
                | Inr _ \<Rightarrow> Inr model
              else Inr model)"
proof -
  have no: "LoadCheckpoint m path
              \<notin> set (snd (normalize_kwargs env (scriptable, exportable, no_jit) model_name kwargs))"
    for m path
    by (auto dest: normalize_kwargs_events)
  show ?thesis
    using no
    by (auto simp add: create_model_registered [OF assms(2) assms(1)] Let_def assms(3)
        split: sum.splits)
qed

theorem create_model_checkpoint_witness:
  "is_model demo_registry ''resnet50''
   \<and> fst (normalize_kwargs demo_registry (None, None, None) ''resnet50''
            [(''drop_connect_rate'', PFloat 1 (-2)), (''bn_tf'', PBool True),
             (''global_pool'', PNone)])
       = Inr [(''act_layer'', PObj 1), (''norm_layer'', PObj 11),
              (''drop_path_rate'', PFloat 1 (-2))]
   \<and> model_entrypoint demo_registry ''resnet50'' (None, None, None)
           [(''pretrained'', PNone), (''num_classes'', PInt 1000), (''in_chans'', PInt 3)]
           [(''act_layer'', PObj 1), (''norm_layer'', PObj 11),
            (''drop_path_rate'', PFloat 1 (-2))] = Inr 8
   \<and> LoadCheckpoint 8 ''w.pth''
       \<in> set (snd (create_model demo_registry ''resnet50'' PNone (PInt 1000) (PInt 3) ''w.pth''
                     None None None
                     [(''drop_connect_rate'', PFloat 1 (-2)), (''bn_tf'', PBool True),
                      (''global_pool'', PNone)]))
   \<and> LoadCheckpoint 8 ''w.pth''
       \<notin> set (snd (create_model demo_registry ''resnet50'' PNone (PInt 1000) (PInt 3) []
                     None None None
                     [(''drop_connect_rate'', PFloat 1 (-2)), (''bn_tf'', PBool True),
                      (''global_pool'', PNone)]))"
proof -
  have r: "is_model demo_registry ''resnet50''"
    by (simp add: demo_registry_def)
  have n: "fst (normalize_kwargs demo_registry (None, None, None) ''resnet50''
            [(''drop_connect_rate'', PFloat 1 (-2)), (''bn_tf'', PBool True),
             (''global_pool'', PNone)])
       = Inr [(''act_layer'', PObj 1), (''norm_layer'', PObj 11),
              (''drop_path_rate'', PFloat 1 (-2))]"
    by (simp add: demo_normalize_resnet50)
  have m: "model_entrypoint demo_registry ''resnet50'' (None, None, None)
           [(''pretrained'', PNone), (''num_classes'', PInt 1000), (''in_chans'', PInt 3)]
           [(''act_layer'', PObj 1), (''norm_layer'', PObj 11),
            (''drop_path_rate'', PFloat 1 (-2))] = Inr 8"
    by (simp add: demo_registry_def)
  have ne: "''w.pth'' \<noteq> []"
    by simp
  from create_model_checkpoint [OF r n m, of "''w.pth''"] ne
  have a: "LoadCheckpoint 8 ''w.pth''
       \<in> set (snd (create_model demo_registry ''resnet50'' PNone (PInt 1000) (PInt 3) ''w.pth''
                     None None None
                     [(''drop_connect_rate'', PFloat 1 (-2)), (''bn_tf'', PBool True),
                      (''global_pool'', PNone)]))"
    by blast
  from create_model_checkpoint [OF r n m, of "[]"]
  have b: "LoadCheckpoint 8 ''w.pth''
       \<notin> set (snd (create_model demo_registry ''resnet50'' PNone (PInt 1000) (PInt 3) []
                     None None None
                     [(''drop_connect_rate'', PFloat 1 (-2)), (''bn_tf'', PBool True),
                      (''global_pool'', PNone)]))"
    by blast
  from r n m a b show ?thesis
    by blast
qed

text \<open>
  C4. With \<^verbatim>\<open>drop_connect_rate\<close> given and not None: every constructor call gets no
  \<^verbatim>\<open>drop_connect_rate\<close>; it gets \<^verbatim>\<open>drop_path_rate\<close> equal to that value when
  \<^verbatim>\<open>drop_path_rate\<close> was absent or None, and the \<^verbatim>\<open>drop_path_rate\<close> that was given
  otherwise. The constructor is called whenever the model is registered, the lookups
  return and, where \<^verbatim>\<open>drop_path_rate\<close> was absent or None, the value can be formatted
  with \<^verbatim>\<open>%f\<close> for the deprecation message.
\<close>

theorem create_model_drop_connect:
  assumes "is_dict kwargs"
    and "map_of kwargs ''drop_connect_rate'' = Some rate"
    and "rate \<noteq> PNone"
  shows "(\<forall>n a kw'.
            CreateFn n a kw'
              \<in> set (snd (create_model env model_name pretrained num_classes in_chans
                             checkpoint_path scriptable exportable no_jit kwargs))
            \<longrightarrow> ''drop_connect_rate'' \<notin> fst ` set kw'
               \<and> (if map_of kwargs ''drop_path_rate'' = None
                      \<or> map_of kwargs ''drop_path_rate'' = Some PNone
                   then map_of kw' ''drop_path_rate'' = Some rate
                   else map_of kw' ''drop_path_rate'' = map_of kwargs ''drop_path_rate''))
       \<and> (is_model env model_name
          \<and> (is_model_in_modules env model_name [''efficientnet'', ''mobilenetv3'']
             \<or> \<not> isl (get_act_layer env (scriptable, exportable, no_jit)
                         (get kwargs ''act_layer'' (PStr ''relu''))))
          \<and> \<not> isl (get_norm env
                      (if get_world_size env > 1
                          \<and> get kwargs ''norm_layer'' (PStr ''BN'')
                              \<notin> {PStr ''SyncBN'', PStr ''nnSyncBN'', PStr ''naiveSyncBN''}
                       then PStr ''SyncBN''
                       else get kwargs ''norm_layer'' (PStr ''BN'')))
          \<and> (map_of kwargs ''drop_path_rate'' = None
                \<or> map_of kwargs ''drop_path_rate'' = Some PNone
              \<longrightarrow> format_f rate = None)
          \<longrightarrow> (\<exists>kw'.
                 CreateFn model_name
                   [(''pretrained'', pretrained), (''num_classes'', num_classes),
                    (''in_chans'', in_chans)] kw'
                   \<in> set (snd (create_model env model_name pretrained num_classes in_chans
                                  checkpoint_path scriptable exportable no_jit kwargs))
               \<and> ''drop_connect_rate'' \<notin> fst ` set kw'
               \<and> (if map_of kwargs ''drop_path_rate'' = None
                      \<or> map_of kwargs ''drop_path_rate'' = Some PNone
                   then map_of kw' ''drop_path_rate'' = Some rate
                   else map_of kw' ''drop_path_rate'' = map_of kwargs ''drop_path_rate'')))"
proof -
  let ?tr = "snd (create_model env model_name pretrained num_classes in_chans
                    checkpoint_path scriptable exportable no_jit kwargs)"
  let ?absent = "map_of kwargs ''drop_path_rate'' = None
                 \<or> map_of kwargs ''drop_path_rate'' = Some PNone"
  have g: "get kwargs ''drop_connect_rate'' PNone = rate"
    by (simp add: get_def assms(2))
  have gp: "get kwargs ''drop_path_rate'' PNone = PNone \<longleftrightarrow> ?absent"
    by (cases "map_of kwargs ''drop_path_rate''") (simp_all add: get_def)
  have each: "''drop_connect_rate'' \<notin> fst ` set kw'
               \<and> (if ?absent then map_of kw' ''drop_path_rate'' = Some rate
                   else map_of kw' ''drop_path_rate'' = map_of kwargs ''drop_path_rate'')"
    if c: "CreateFn n a kw' \<in> set ?tr" for n a kw'
  proof -
    from create_fn_called [OF c]
    have n: "fst (normalize_kwargs env (scriptable, exportable, no_jit) model_name kwargs) = Inr kw'"
      by simp
    from normalized_lookup [OF n assms(1)] obtain kw3 where
      d3: "is_dict kw3" and kw': "kw' = drop_unset kw3" and
      dc: "map_of kw3 ''drop_connect_rate'' = None" and
      dp: "map_of kw3 ''drop_path_rate'' =
               (if get kwargs ''drop_connect_rate'' PNone \<noteq> PNone
                   \<and> get kwargs ''drop_path_rate'' PNone = PNone
                then Some (get kwargs ''drop_connect_rate'' PNone)
                else map_of kwargs ''drop_path_rate'')"
      by (elim exE conjE) (rule that)
    have "map_of kw' ''drop_connect_rate'' = None"
      by (simp add: kw' map_of_drop_unset [OF d3] dc)
    then have 1: "''drop_connect_rate'' \<notin> fst ` set kw'"
      by (simp add: map_of_eq_None_iff)
    have 2: "if ?absent then map_of kw' ''drop_path_rate'' = Some rate
             else map_of kw' ''drop_path_rate'' = map_of kwargs ''drop_path_rate''"
      using assms(3)
      by (auto simp add: kw' map_of_drop_unset [OF d3] dp g gp split: option.splits)
    from 1 2 show ?thesis ..
  qed
  have reached: "\<exists>kw'. CreateFn model_name
                   [(''pretrained'', pretrained), (''num_classes'', num_classes),
                    (''in_chans'', in_chans)] kw' \<in> set ?tr
               \<and> ''drop_connect_rate'' \<notin> fst ` set kw'
               \<and> (if ?absent then map_of kw' ''drop_path_rate'' = Some rate
                   else map_of kw' ''drop_path_rate'' = map_of kwargs ''drop_path_rate'')"
    if r: "is_model env model_name"
      and act: "is_model_in_modules env model_name [''efficientnet'', ''mobilenetv3'']
             \<or> \<not> isl (get_act_layer env (scriptable, exportable, no_jit)
                         (get kwargs ''act_layer'' (PStr ''relu'')))"
      and norm: "\<not> isl (get_norm env
                      (if get_world_size env > 1
                          \<and> get kwargs ''norm_layer'' (PStr ''BN'')
                              \<notin> {PStr ''SyncBN'', PStr ''nnSyncBN'', PStr ''naiveSyncBN''}
                       then PStr ''SyncBN''
                       else get kwargs ''norm_layer'' (PStr ''BN'')))"
      and fmt: "?absent \<longrightarrow> format_f rate = None"
  proof -
    from fmt have "get kwargs ''drop_connect_rate'' PNone = PNone
               \<or> get kwargs ''drop_path_rate'' PNone \<noteq> PNone
               \<or> format_f (get kwargs ''drop_connect_rate'' PNone) = None"
      by (cases "?absent") (simp_all add: g gp)
    from normalize_kwargs_returns [OF act norm this] obtain kw' where
      n: "fst (normalize_kwargs env (scriptable, exportable, no_jit) model_name kwargs) = Inr kw'" ..
    note c = create_fn_reached [OF r n, of pretrained num_classes in_chans checkpoint_path]
    from c each [OF c] show ?thesis
      by (intro exI conjI) (erule conjunct1 conjunct2 | assumption)+
  qed
  show ?thesis
  proof (intro conjI allI impI)
    fix n a kw'
    assume c: "CreateFn n a kw' \<in> set ?tr"
    from each [OF c] show "''drop_connect_rate'' \<notin> fst ` set kw'"
      by (rule conjunct1)
    from each [OF c]
    show "if ?absent then map_of kw' ''drop_path_rate'' = Some rate
          else map_of kw' ''drop_path_rate'' = map_of kwargs ''drop_path_rate''"
      by (rule conjunct2)
  next
    assume "is_model env model_name
          \<and> (is_model_in_modules env model_name [''efficientnet'', ''mobilenetv3'']
             \<or> \<not> isl (get_act_layer env (scriptable, exportable, no_jit)
                         (get kwargs ''act_layer'' (PStr ''relu''))))
          \<and> \<not> isl (get_norm env
                      (if get_world_size env > 1
                          \<and> get kwargs ''norm_layer'' (PStr ''BN'')
                              \<notin> {PStr ''SyncBN'', PStr ''nnSyncBN'', PStr ''naiveSyncBN''}
                       then PStr ''SyncBN''
                       else get kwargs ''norm_layer'' (PStr ''BN'')))
          \<and> (?absent \<longrightarrow> format_f rate = None)"
    then show "\<exists>kw'. CreateFn model_name
                   [(''pretrained'', pretrained), (''num_classes'', num_classes),
                    (''in_chans'', in_chans)] kw' \<in> set ?tr
               \<and> ''drop_connect_rate'' \<notin> fst ` set kw'
               \<and> (if ?absent then map_of kw' ''drop_path_rate'' = Some rate
                   else map_of kw' ''drop_path_rate'' = map_of kwargs ''drop_path_rate'')"
      by (elim conjE) (rule reached)
  qed
qed

theorem create_model_drop_connect_witness:
  "is_dict [(''drop_connect_rate'', PFloat 1 (-2)), (''bn_tf'', PBool True),
            (''global_pool'', PNone)]
   \<and> map_of [(''drop_connect_rate'', PFloat 1 (-2)), (''bn_tf'', PBool True),
              (''global_pool'', PNone)] ''drop_connect_rate'' = Some (PFloat 1 (-2))
   \<and> map_of [(''drop_connect_rate'', PFloat 1 (-2)), (''bn_tf'', PBool True),
              (''global_pool'', PNone)] ''drop_path_rate'' = None
   \<and> PFloat 1 (-2) \<noteq> PNone
   \<and> format_f (PFloat 1 (-2)) = None
   \<and> (\<exists>kw'. CreateFn ''resnet50''
               [(''pretrained'', PNone), (''num_classes'', PInt 1000), (''in_chans'', PInt 3)] kw'
               \<in> set (snd (create_model demo_registry ''resnet50'' PNone (PInt 1000) (PInt 3)
                             ''w.pth'' None None None
                             [(''drop_connect_rate'', PFloat 1 (-2)), (''bn_tf'', PBool True),
                              (''global_pool'', PNone)]))
            \<and> ''drop_connect_rate'' \<notin> fst ` set kw'
            \<and> map_of kw' ''drop_path_rate'' = Some (PFloat 1 (-2)))
   \<and> is_dict [(''drop_connect_rate'', PFloat 1 (-2)), (''drop_path_rate'', PFloat 1 (-1))]
   \<and> map_of [(''drop_connect_rate'', PFloat 1 (-2)), (''drop_path_rate'', PFloat 1 (-1))]
        ''drop_connect_rate'' = Some (PFloat 1 (-2))
   \<and> map_of [(''drop_connect_rate'', PFloat 1 (-2)), (''drop_path_rate'', PFloat 1 (-1))]
        ''drop_path_rate'' = Some (PFloat 1 (-1))
   \<and> (\<exists>kw'. CreateFn ''resnet50''
               [(''pretrained'', PNone), (''num_classes'', PInt 1000), (''in_chans'', PInt 3)] kw'
               \<in> set (snd (create_model demo_registry ''resnet50'' PNone (PInt 1000) (PInt 3)
                             [] None None None
                             [(''drop_connect_rate'', PFloat 1 (-2)),
                              (''drop_path_rate'', PFloat 1 (-1))]))
            \<and> ''drop_connect_rate'' \<notin> fst ` set kw'
            \<and> map_of kw' ''drop_path_rate'' = Some (PFloat 1 (-1)))"
proof -
  let ?K = "[(''drop_connect_rate'', PFloat 1 (-2)), (''bn_tf'', PBool True),
             (''global_pool'', PNone)]"
  let ?L = "[(''drop_connect_rate'', PFloat 1 (-2)), (''drop_path_rate'', PFloat 1 (-1))]"
  have d1: "is_dict ?K" and d2: "is_dict ?L"
    by (simp_all add: is_dict_def)
  have c1: "map_of ?K ''drop_connect_rate'' = Some (PFloat 1 (-2))"
    and p1: "map_of ?K ''drop_path_rate'' = None"
    and c2: "map_of ?L ''drop_connect_rate'' = Some (PFloat 1 (-2))"
    and p2: "map_of ?L ''drop_path_rate'' = Some (PFloat 1 (-1))"
    and nn: "PFloat 1 (-2) \<noteq> PNone"
    and f: "format_f (PFloat 1 (-2)) = None"
    by simp_all
  have pre1: "is_model demo_registry ''resnet50''
          \<and> (is_model_in_modules demo_registry ''resnet50'' [''efficientnet'', ''mobilenetv3'']
             \<or> \<not> isl (get_act_layer demo_registry (None, None, None)
                         (get ?K ''act_layer'' (PStr ''relu''))))
          \<and> \<not> isl (get_norm demo_registry
                      (if get_world_size demo_registry > 1
                          \<and> get ?K ''norm_layer'' (PStr ''BN'')
                              \<notin> {PStr ''SyncBN'', PStr ''nnSyncBN'', PStr ''naiveSyncBN''}
                       then PStr ''SyncBN''
                       else get ?K ''norm_layer'' (PStr ''BN'')))
          \<and> (map_of ?K ''drop_path_rate'' = None \<or> map_of ?K ''drop_path_rate'' = Some PNone
              \<longrightarrow> format_f (PFloat 1 (-2)) = None)"
    by (simp add: demo_registry_def get_def)
  have pre2: "is_model demo_registry ''resnet50''
          \<and> (is_model_in_modules demo_registry ''resnet50'' [''efficientnet'', ''mobilenetv3'']
             \<or> \<not> isl (get_act_layer demo_registry (None, None, None)
                         (get ?L ''act_layer'' (PStr ''relu''))))
          \<and> \<not> isl (get_norm demo_registry
                      (if get_world_size demo_registry > 1
                          \<and> get ?L ''norm_layer'' (PStr ''BN'')
                              \<notin> {PStr ''SyncBN'', PStr ''nnSyncBN'', PStr ''naiveSyncBN''}
                       then PStr ''SyncBN''
                       else get ?L ''norm_layer'' (PStr ''BN'')))
          \<and> (map_of ?L ''drop_path_rate'' = None \<or> map_of ?L ''drop_path_rate'' = Some PNone
              \<longrightarrow> format_f (PFloat 1 (-2)) = None)"
    by (simp add: demo_registry_def get_def)
  note t1 = create_model_drop_connect [OF d1 c1 nn, THEN conjunct2, rule_format, OF pre1,
      of PNone "PInt 1000" "PInt 3" "''w.pth''"]
  note t2 = create_model_drop_connect [OF d2 c2 nn, THEN conjunct2, rule_format, OF pre2,
      of PNone "PInt 1000" "PInt 3" "[]"]
  from t1 have e1: "\<exists>kw'. CreateFn ''resnet50''
               [(''pretrained'', PNone), (''num_classes'', PInt 1000), (''in_chans'', PInt 3)] kw'
               \<in> set (snd (create_model demo_registry ''resnet50'' PNone (PInt 1000) (PInt 3)
                             ''w.pth'' None None None ?K))
            \<and> ''drop_connect_rate'' \<notin> fst ` set kw'
            \<and> map_of kw' ''drop_path_rate'' = Some (PFloat 1 (-2))"
    by (simp only: p1 simp_thms if_True)
  from t2 have e2: "\<exists>kw'. CreateFn ''resnet50''
               [(''pretrained'', PNone), (''num_classes'', PInt 1000), (''in_chans'', PInt 3)] kw'
               \<in> set (snd (create_model demo_registry ''resnet50'' PNone (PInt 1000) (PInt 3)
                             [] None None None ?L))
            \<and> ''drop_connect_rate'' \<notin> fst ` set kw'
            \<and> map_of kw' ''drop_path_rate'' = Some (PFloat 1 (-1))"
    by (simp only: p2 simp_thms if_False option.simps pyval.simps)
  show ?thesis
    by (intro conjI) (rule d1 d2 c1 p1 c2 p2 nn f e1 e2)+
qed

text \<open>
  C5, as the code has it. For a model name outside the \<^verbatim>\<open>efficientnet\<close> and
  \<^verbatim>\<open>mobilenetv3\<close> modules every constructor call gets, as \<^verbatim>\<open>act_layer\<close>, the layer
  \<^verbatim>\<open>get_act_layer(act_layer)\<close> of the keyword given (\<^verbatim>\<open>'relu'\<close> when absent), and no
  \<^verbatim>\<open>act_layer\<close> keyword when that lookup gives None (line 68). For a model name in those
  modules the keyword is not looked up (line 40): the constructor gets it as it was
  given, and does not get it when it was None. The constructor is called whenever the
  model is registered, the lookups that are made return and the deprecation message of
  lines 61-62, if it is due, can be formatted. In the last run below the constructor of
  a model of the \<^verbatim>\<open>efficientnet\<close> module gets \<^verbatim>\<open>'swish'\<close> itself.
\<close>

theorem create_model_act_layer:
  assumes "is_dict kwargs"
  shows "(\<forall>n a kw'.
            CreateFn n a kw'
              \<in> set (snd (create_model env model_name pretrained num_classes in_chans
                             checkpoint_path scriptable exportable no_jit kwargs))
            \<longrightarrow> (if is_model_in_modules env model_name [''efficientnet'', ''mobilenetv3'']
                 then map_of kw' ''act_layer''
                        = (if map_of kwargs ''act_layer'' = Some PNone then None
                           else map_of kwargs ''act_layer'')
                 else \<exists>layer.
                        get_act_layer env (scriptable, exportable, no_jit)
                          (get kwargs ''act_layer'' (PStr ''relu'')) = Inr layer
                      \<and> map_of kw' ''act_layer'' = (if layer = PNone then None else Some layer)))
       \<and> (is_model env model_name
          \<and> (is_model_in_modules env model_name [''efficientnet'', ''mobilenetv3'']
             \<or> \<not> isl (get_act_layer env (scriptable, exportable, no_jit)
                         (get kwargs ''act_layer'' (PStr ''relu''))))
          \<and> \<not> isl (get_norm env
                      (if get_world_size env > 1
                          \<and> get kwargs ''norm_layer'' (PStr ''BN'')
                              \<notin> {PStr ''SyncBN'', PStr ''nnSyncBN'', PStr ''naiveSyncBN''}
                       then PStr ''SyncBN''
                       else get kwargs ''norm_layer'' (PStr ''BN'')))
          \<and> (get kwargs ''drop_connect_rate'' PNone = PNone
             \<or> get kwargs ''drop_path_rate'' PNone \<noteq> PNone
             \<or> format_f (get kwargs ''drop_connect_rate'' PNone) = None)
          \<longrightarrow> (\<exists>kw'.
                 CreateFn model_name
                   [(''pretrained'', pretrained), (''num_classes'', num_classes),
                    (''in_chans'', in_chans)] kw'
                   \<in> set (snd (create_model env model_name pretrained num_classes in_chans
                                  checkpoint_path scriptable exportable no_jit kwargs))
               \<and> (if is_model_in_modules env model_name [''efficientnet'', ''mobilenetv3'']
                   then map_of kw' ''act_layer''
                          = (if map_of kwargs ''act_layer'' = Some PNone then None
                             else map_of kwargs ''act_layer'')
                   else \<exists>layer.
                          get_act_layer env (scriptable, exportable, no_jit)
                            (get kwargs ''act_layer'' (PStr ''relu'')) = Inr layer
                        \<and> map_of kw' ''act_layer''
                            = (if layer = PNone then None else Some layer))))"
proof -
  let ?tr = "snd (create_model env model_name pretrained num_classes in_chans
                    checkpoint_path scriptable exportable no_jit kwargs)"
  let ?eff = "is_model_in_modules env model_name [''efficientnet'', ''mobilenetv3'']"
  let ?P = "\<lambda>kw'. if ?eff
                 then map_of kw' ''act_layer''
                        = (if map_of kwargs ''act_layer'' = Some PNone then None
                           else map_of kwargs ''act_layer'')
                 else \<exists>layer.
                        get_act_layer env (scriptable, exportable, no_jit)
                          (get kwargs ''act_layer'' (PStr ''relu'')) = Inr layer
                      \<and> map_of kw' ''act_layer'' = (if layer = PNone then None else Some layer)"
  have each: "?P kw'" if c: "CreateFn n a kw' \<in> set ?tr" for n a kw'
  proof -
    from create_fn_called [OF c]
    have n: "fst (normalize_kwargs env (scriptable, exportable, no_jit) model_name kwargs) = Inr kw'"
      by simp
    from normalized_lookup [OF n assms] obtain kw3 where
      d3: "is_dict kw3" and kw': "kw' = drop_unset kw3" and
      br: "if ?eff
           then \<forall>k \<in> {''bn_tf'', ''bn_momentum'', ''bn_eps'', ''act_layer''}.
                  map_of kw3 k = map_of kwargs k
           else map_of kw3 ''bn_tf'' = None \<and> map_of kw3 ''bn_momentum'' = None
                \<and> map_of kw3 ''bn_eps'' = None
                \<and> (\<exists>la. get_act_layer env (scriptable, exportable, no_jit)
                           (get kwargs ''act_layer'' (PStr ''relu'')) = Inr la
                      \<and> map_of kw3 ''act_layer'' = Some la)"
      by (elim exE conjE) (rule that)
    have dropped: "map_of kw' j = (if map_of kw3 j = Some PNone then None else map_of kw3 j)" for j
      unfolding kw' map_of_drop_unset [OF d3]
      by (cases "map_of kw3 j") simp_all
    show ?thesis
    proof (cases ?eff)
      case True
      with br have "\<forall>k \<in> {''bn_tf'', ''bn_momentum'', ''bn_eps'', ''act_layer''}.
                  map_of kw3 k = map_of kwargs k"
        by (simp only: if_True)
      then have "map_of kw3 ''act_layer'' = map_of kwargs ''act_layer''"
        by simp
      with True show ?thesis
        by (simp add: dropped)
    next
      case False
      with br obtain la where
        la: "get_act_layer env (scriptable, exportable, no_jit)
               (get kwargs ''act_layer'' (PStr ''relu'')) = Inr la" and
        m: "map_of kw3 ''act_layer'' = Some la"
        by (simp only: if_False) (elim exE conjE, rule that)
      have "map_of kw' ''act_layer'' = (if la = PNone then None else Some la)"
        by (simp add: dropped m)
      with la False show ?thesis
        by simp
    qed
  qed
  have reached: "\<exists>kw'. CreateFn model_name
                   [(''pretrained'', pretrained), (''num_classes'', num_classes),
                    (''in_chans'', in_chans)] kw' \<in> set ?tr \<and> ?P kw'"
    if r: "is_model env model_name"
      and act: "?eff \<or> \<not> isl (get_act_layer env (scriptable, exportable, no_jit)
                         (get kwargs ''act_layer'' (PStr ''relu'')))"
      and norm: "\<not> isl (get_norm env
                      (if get_world_size env > 1
                          \<and> get kwargs ''norm_layer'' (PStr ''BN'')
                              \<notin> {PStr ''SyncBN'', PStr ''nnSyncBN'', PStr ''naiveSyncBN''}
                       then PStr ''SyncBN''
                       else get kwargs ''norm_layer'' (PStr ''BN'')))"
      and fmt: "get kwargs ''drop_connect_rate'' PNone = PNone
             \<or> get kwargs ''drop_path_rate'' PNone \<noteq> PNone
             \<or> format_f (get kwargs ''drop_connect_rate'' PNone) = None"
  proof -
    from normalize_kwargs_returns [OF act norm fmt] obtain kw' where
      n: "fst (normalize_kwargs env (scriptable, exportable, no_jit) model_name kwargs) = Inr kw'" ..
    note c = create_fn_reached [OF r n, of pretrained num_classes in_chans checkpoint_path]
    from c each [OF c] show ?thesis
      by (intro exI conjI)
  qed
  show ?thesis
  proof (intro conjI allI impI)
    fix n a kw'
    assume "CreateFn n a kw' \<in> set ?tr"
    then show "?P kw'"
      by (rule each)
  next
    assume "is_model env model_name
          \<and> (?eff \<or> \<not> isl (get_act_layer env (scriptable, exportable, no_jit)
                         (get kwargs ''act_layer'' (PStr ''relu''))))
          \<and> \<not> isl (get_norm env
                      (if get_world_size env > 1
                          \<and> get kwargs ''norm_layer'' (PStr ''BN'')
                              \<notin> {PStr ''SyncBN'', PStr ''nnSyncBN'', PStr ''naiveSyncBN''}
                       then PStr ''SyncBN''
                       else get kwargs ''norm_layer'' (PStr ''BN'')))
          \<and> (get kwargs ''drop_connect_rate'' PNone = PNone
             \<or> get kwargs ''drop_path_rate'' PNone \<noteq> PNone
             \<or> format_f (get kwargs ''drop_connect_rate'' PNone) = None)"
    then show "\<exists>kw'. CreateFn model_name
                   [(''pretrained'', pretrained), (''num_classes'', num_classes),
                    (''in_chans'', in_chans)] kw' \<in> set ?tr \<and> ?P kw'"
      by (elim conjE) (rule reached)
  qed
qed

theorem create_model_act_layer_witness:
  "is_dict [(''act_layer'', PStr ''swish'')]
   \<and> is_model demo_registry ''resnet50''
   \<and> \<not> is_model_in_modules demo_registry ''resnet50'' [''efficientnet'', ''mobilenetv3'']
   \<and> get_act_layer demo_registry (None, None, None) (PStr ''swish'') = Inr (PObj 2)
   \<and> (\<exists>kw'. CreateFn ''resnet50''
               [(''pretrained'', PNone), (''num_classes'', PInt 1000), (''in_chans'', PInt 3)] kw'
               \<in> set (snd (create_model demo_registry ''resnet50'' PNone (PInt 1000) (PInt 3)
                             [] None None None [(''act_layer'', PStr ''swish'')]))
            \<and> map_of kw' ''act_layer'' = Some (PObj 2))
   \<and> is_dict []
   \<and> get_act_layer demo_registry (None, None, None) (PStr ''relu'') = Inr (PObj 1)
   \<and> (\<exists>kw'. CreateFn ''resnet50''
               [(''pretrained'', PNone), (''num_classes'', PInt 1000), (''in_chans'', PInt 3)] kw'
               \<in> set (snd (create_model demo_registry ''resnet50'' PNone (PInt 1000) (PInt 3)
                             [] None None None []))
            \<and> map_of kw' ''act_layer'' = Some (PObj 1))
   \<and> is_model demo_registry ''efficientnet_b0''
   \<and> is_model_in_modules demo_registry ''efficientnet_b0'' [''efficientnet'', ''mobilenetv3'']
   \<and> (\<exists>kw'. CreateFn ''efficientnet_b0''
               [(''pretrained'', PNone), (''num_classes'', PInt 1000), (''in_chans'', PInt 3)] kw'
               \<in> set (snd (create_model demo_registry ''efficientnet_b0'' PNone (PInt 1000)
                             (PInt 3) [] None None None [(''act_layer'', PStr ''swish'')]))
            \<and> map_of kw' ''act_layer'' = Some (PStr ''swish''))
   \<and> is_dict [(''act_layer'', PNone)]
   \<and> (\<exists>kw'. CreateFn ''efficientnet_b0''
               [(''pretrained'', PNone), (''num_classes'', PInt 1000), (''in_chans'', PInt 3)] kw'
               \<in> set (snd (create_model demo_registry ''efficientnet_b0'' PNone (PInt 1000)
                             (PInt 3) [] None None None [(''act_layer'', PNone)]))
            \<and> map_of kw' ''act_layer'' = None)
   \<and> is_dict [(''act_layer'', PStr ''gelu'')]
   \<and> get_act_layer demo_registry (None, None, None) (PStr ''gelu'') = Inl ''KeyError''
   \<and> (\<exists>kw'. CreateFn ''efficientnet_b0''
               [(''pretrained'', PNone), (''num_classes'', PInt 1000), (''in_chans'', PInt 3)] kw'
               \<in> set (snd (create_model demo_registry ''efficientnet_b0'' PNone (PInt 1000)
                             (PInt 3) [] None None None [(''act_layer'', PStr ''gelu'')]))
            \<and> map_of kw' ''act_layer'' = Some (PStr ''gelu''))"
proof -
  let ?S = "[(''act_layer'', PStr ''swish'')]"
  let ?G = "[(''act_layer'', PStr ''gelu'')]"
  let ?N = "[(''act_layer'', PNone)]"
  let ?E = "[] :: kwargs"
  have d: "is_dict ?S" "is_dict ?E" "is_dict ?N" "is_dict ?G"
    by (simp_all add: is_dict_def)
  have r1: "is_model demo_registry ''resnet50''"
    and ne: "\<not> is_model_in_modules demo_registry ''resnet50'' [''efficientnet'', ''mobilenetv3'']"
    and r2: "is_model demo_registry ''efficientnet_b0''"
    and e: "is_model_in_modules demo_registry ''efficientnet_b0'' [''efficientnet'', ''mobilenetv3'']"
    and ls: "get_act_layer demo_registry (None, None, None) (PStr ''swish'') = Inr (PObj 2)"
    and lr: "get_act_layer demo_registry (None, None, None) (PStr ''relu'') = Inr (PObj 1)"
    and lg: "get_act_layer demo_registry (None, None, None) (PStr ''gelu'') = Inl ''KeyError''"
    by (simp_all add: demo_registry_def)
  have gs: "get ?S ''act_layer'' (PStr ''relu'') = PStr ''swish''"
    and ge: "get ?E ''act_layer'' (PStr ''relu'') = PStr ''relu''"
    by (simp_all add: get_def)
  have pre: "is_model demo_registry m
          \<and> (is_model_in_modules demo_registry m [''efficientnet'', ''mobilenetv3'']
             \<or> \<not> isl (get_act_layer demo_registry (None, None, None)
                         (get K ''act_layer'' (PStr ''relu''))))
          \<and> \<not> isl (get_norm demo_registry
                      (if get_world_size demo_registry > 1
                          \<and> get K ''norm_layer'' (PStr ''BN'')
                              \<notin> {PStr ''SyncBN'', PStr ''nnSyncBN'', PStr ''naiveSyncBN''}
                       then PStr ''SyncBN''
                       else get K ''norm_layer'' (PStr ''BN'')))
          \<and> (get K ''drop_connect_rate'' PNone = PNone
             \<or> get K ''drop_path_rate'' PNone \<noteq> PNone
             \<or> format_f (get K ''drop_connect_rate'' PNone) = None)"
    if "is_model demo_registry m" and "K = ?S \<or> K = ?E \<or> K = ?N" for m K
    using that by (auto simp add: demo_registry_def get_def)
  have pre_eff: "is_model demo_registry ''efficientnet_b0''
          \<and> (is_model_in_modules demo_registry ''efficientnet_b0'' [''efficientnet'', ''mobilenetv3'']
             \<or> \<not> isl (get_act_layer demo_registry (None, None, None)
                         (get ?G ''act_layer'' (PStr ''relu''))))
          \<and> \<not> isl (get_norm demo_registry
                      (if get_world_size demo_registry > 1
                          \<and> get ?G ''norm_layer'' (PStr ''BN'')
                              \<notin> {PStr ''SyncBN'', PStr ''nnSyncBN'', PStr ''naiveSyncBN''}
                       then PStr ''SyncBN''
                       else get ?G ''norm_layer'' (PStr ''BN'')))
          \<and> (get ?G ''drop_connect_rate'' PNone = PNone
             \<or> get ?G ''drop_path_rate'' PNone \<noteq> PNone
             \<or> format_f (get ?G ''drop_connect_rate'' PNone) = None)"
    by (simp add: demo_registry_def get_def)
  note t5 = create_model_act_layer [OF d(4), THEN conjunct2, rule_format,
      OF pre_eff, of PNone "PInt 1000" "PInt 3" "[]"]
  note t1 = create_model_act_layer [OF d(1), THEN conjunct2, rule_format,
      OF pre [OF r1], of PNone "PInt 1000" "PInt 3" "[]"]
  note t2 = create_model_act_layer [OF d(2), THEN conjunct2, rule_format,
      OF pre [OF r1], of PNone "PInt 1000" "PInt 3" "[]"]
  note t3 = create_model_act_layer [OF d(1), THEN conjunct2, rule_format,
      OF pre [OF r2], of PNone "PInt 1000" "PInt 3" "[]"]
  note t4 = create_model_act_layer [OF d(3), THEN conjunct2, rule_format,
      OF pre [OF r2], of PNone "PInt 1000" "PInt 3" "[]"]
  from t1 have e1: "\<exists>kw'. CreateFn ''resnet50''
               [(''pretrained'', PNone), (''num_classes'', PInt 1000), (''in_chans'', PInt 3)] kw'
               \<in> set (snd (create_model demo_registry ''resnet50'' PNone (PInt 1000) (PInt 3)
                             [] None None None ?S))
            \<and> map_of kw' ''act_layer'' = Some (PObj 2)"
    by (simp add: ne gs ls)
  from t2 have e2: "\<exists>kw'. CreateFn ''resnet50''
               [(''pretrained'', PNone), (''num_classes'', PInt 1000), (''in_chans'', PInt 3)] kw'
               \<in> set (snd (create_model demo_registry ''resnet50'' PNone (PInt 1000) (PInt 3)
                             [] None None None []))
            \<and> map_of kw' ''act_layer'' = Some (PObj 1)"
    by (simp add: ne ge lr)
  from t3 have e3: "\<exists>kw'. CreateFn ''efficientnet_b0''
               [(''pretrained'', PNone), (''num_classes'', PInt 1000), (''in_chans'', PInt 3)] kw'
               \<in> set (snd (create_model demo_registry ''efficientnet_b0'' PNone (PInt 1000)
                             (PInt 3) [] None None None ?S))
            \<and> map_of kw' ''act_layer'' = Some (PStr ''swish'')"
    by (simp add: e)
  from t4 have e4: "\<exists>kw'. CreateFn ''efficientnet_b0''
               [(''pretrained'', PNone), (''num_classes'', PInt 1000), (''in_chans'', PInt 3)] kw'
               \<in> set (snd (create_model demo_registry ''efficientnet_b0'' PNone (PInt 1000)
                             (PInt 3) [] None None None ?N))
            \<and> map_of kw' ''act_layer'' = None"
    by (simp add: e)
  from t5 have e5: "\<exists>kw'. CreateFn ''efficientnet_b0''
               [(''pretrained'', PNone), (''num_classes'', PInt 1000), (''in_chans'', PInt 3)] kw'
               \<in> set (snd (create_model demo_registry ''efficientnet_b0'' PNone (PInt 1000)
                             (PInt 3) [] None None None ?G))
            \<and> map_of kw' ''act_layer'' = Some (PStr ''gelu'')"
    by (simp add: e)
  show ?thesis
    by (intro conjI) (rule d r1 ne r2 e ls lr lg e1 e2 e3 e4 e5)+
qed

theorem create_model_act_layer_counterexample:
  "is_model_in_modules demo_registry ''efficientnet_b0'' [''efficientnet'', ''mobilenetv3'']
   \<and> CreateFn ''efficientnet_b0''
     [(''pretrained'', PBool False), (''num_classes'', PInt 1000), (''in_chans'', PInt 3)]
     [(''act_layer'', PStr ''swish''), (''bn_eps'', PFloat 1 (-3)), (''norm_layer'', PObj 11)]
     \<in> set (snd (create_model demo_registry ''efficientnet_b0'' (PBool False) (PInt 1000) (PInt 3)
                   [] None None None
                   [(''bn_momentum'', PNone), (''act_layer'', PStr ''swish''),
                    (''bn_eps'', PFloat 1 (-3))]))
   \<and> get_act_layer demo_registry (None, None, None)
        (get [(''bn_momentum'', PNone), (''act_layer'', PStr ''swish''),
              (''bn_eps'', PFloat 1 (-3))] ''act_layer'' (PStr ''relu'')) = Inr (PObj 2)
   \<and> map_of [(''act_layer'', PStr ''swish''), (''bn_eps'', PFloat 1 (-3)),
              (''norm_layer'', PObj 11)] ''act_layer'' = Some (PStr ''swish'')
   \<and> PStr ''swish'' \<noteq> PObj 2"
proof -
  have 1: "CreateFn ''efficientnet_b0''
     [(''pretrained'', PBool False), (''num_classes'', PInt 1000), (''in_chans'', PInt 3)]
     [(''act_layer'', PStr ''swish''), (''bn_eps'', PFloat 1 (-3)), (''norm_layer'', PObj 11)]
     \<in> set (snd (create_model demo_registry ''efficientnet_b0'' (PBool False) (PInt 1000) (PInt 3)
                   [] None None None
                   [(''bn_momentum'', PNone), (''act_layer'', PStr ''swish''),
                    (''bn_eps'', PFloat 1 (-3))]))"
    by (simp add: demo_run_efficientnet)
  have 2: "get_act_layer demo_registry (None, None, None)
        (get [(''bn_momentum'', PNone), (''act_layer'', PStr ''swish''),
              (''bn_eps'', PFloat 1 (-3))] ''act_layer'' (PStr ''relu'')) = Inr (PObj 2)"
    by (simp add: demo_registry_def get_def)
  have 3: "is_model_in_modules demo_registry ''efficientnet_b0'' [''efficientnet'', ''mobilenetv3'']"
    by (simp add: demo_registry_def)
  from 1 2 3 show ?thesis
    by simp
qed

text \<open>
  C7. Whenever the constructor is called, no keyword it gets has the value None, the
  three arguments \<^verbatim>\<open>pretrained\<close>, \<^verbatim>\<open>num_classes\<close> and \<^verbatim>\<open>in_chans\<close> are passed as
  they were given (also when one of them is None), and a keyword that the normalisation
  does not touch is passed unchanged unless its value is None.
\<close>

theorem create_model_drops_unset:
  assumes "CreateFn n a kw'
             \<in> set (snd (create_model env model_name pretrained num_classes in_chans
                            checkpoint_path scriptable exportable no_jit kwargs))"
    and "is_dict kwargs"
  shows "PNone \<notin> snd ` set kw'
       \<and> a = [(''pretrained'', pretrained), (''num_classes'', num_classes), (''in_chans'', in_chans)]
       \<and> (\<forall>k. k \<notin> {''bn_tf'', ''bn_momentum'', ''bn_eps'', ''act_layer'', ''norm_layer'',
                     ''drop_connect_rate'', ''drop_path_rate''}
              \<longrightarrow> map_of kw' k
                   = (if map_of kwargs k = Some PNone then None else map_of kwargs k))"
proof -
  from create_fn_called [OF assms(1)]
  have n: "fst (normalize_kwargs env (scriptable, exportable, no_jit) model_name kwargs) = Inr kw'"
    and a: "a = [(''pretrained'', pretrained), (''num_classes'', num_classes),
                 (''in_chans'', in_chans)]"
    by simp_all
  from normalized_lookup [OF n assms(2)] obtain kw3 where
    d3: "is_dict kw3" and kw': "kw' = drop_unset kw3" and
    fr: "\<forall>k. k \<notin> {''bn_tf'', ''bn_momentum'', ''bn_eps'', ''act_layer'', ''norm_layer'',
                    ''drop_connect_rate'', ''drop_path_rate''}
             \<longrightarrow> map_of kw3 k = map_of kwargs k"
    by (elim exE conjE) (rule that)
  have 1: "PNone \<notin> snd ` set kw'"
    unfolding kw' set_drop_unset by force
  have 2: "map_of kw' k = (if map_of kwargs k = Some PNone then None else map_of kwargs k)"
    if "k \<notin> {''bn_tf'', ''bn_momentum'', ''bn_eps'', ''act_layer'', ''norm_layer'',
              ''drop_connect_rate'', ''drop_path_rate''}" for k
  proof -
    note e = fr [rule_format, OF that]
    show ?thesis
      unfolding kw' map_of_drop_unset [OF d3] e
      by (cases "map_of kwargs k") simp_all
  qed
  show ?thesis
  proof (intro conjI allI impI)
    show "PNone \<notin> snd ` set kw'" by (rule 1)
    show "a = [(''pretrained'', pretrained), (''num_classes'', num_classes),
               (''in_chans'', in_chans)]" by (rule a)
    fix k
    assume "k \<notin> {''bn_tf'', ''bn_momentum'', ''bn_eps'', ''act_layer'', ''norm_layer'',
              ''drop_connect_rate'', ''drop_path_rate''}"
    then show "map_of kw' k = (if map_of kwargs k = Some PNone then None else map_of kwargs k)"
      by (rule 2)
  qed
qed

theorem create_model_drops_unset_witness:
  "CreateFn ''resnet50''
     [(''pretrained'', PNone), (''num_classes'', PInt 1000), (''in_chans'', PInt 3)]
     [(''act_layer'', PObj 1), (''norm_layer'', PObj 11), (''drop_path_rate'', PFloat 1 (-2))]
     \<in> set (snd (create_model demo_registry ''resnet50'' PNone (PInt 1000) (PInt 3) ''w.pth''
                   None None None
                   [(''drop_connect_rate'', PFloat 1 (-2)), (''bn_tf'', PBool True),
                    (''global_pool'', PNone)]))
   \<and> is_dict [(''drop_connect_rate'', PFloat 1 (-2)), (''bn_tf'', PBool True),
              (''global_pool'', PNone)]
   \<and> map_of [(''drop_connect_rate'', PFloat 1 (-2)), (''bn_tf'', PBool True),
              (''global_pool'', PNone)] ''global_pool'' = Some PNone
   \<and> PNone \<notin> snd ` set [(''act_layer'', PObj 1), (''norm_layer'', PObj 11),
                          (''drop_path_rate'', PFloat 1 (-2))]
   \<and> map_of [(''act_layer'', PObj 1), (''norm_layer'', PObj 11),
              (''drop_path_rate'', PFloat 1 (-2))] ''global_pool'' = None
   \<and> map_of [(''pretrained'', PNone), (''num_classes'', PInt 1000), (''in_chans'', PInt 3)]
        ''pretrained'' = Some PNone"
proof -
  have h: "CreateFn ''resnet50''
     [(''pretrained'', PNone), (''num_classes'', PInt 1000), (''in_chans'', PInt 3)]
     [(''act_layer'', PObj 1), (''norm_layer'', PObj 11), (''drop_path_rate'', PFloat 1 (-2))]
     \<in> set (snd (create_model demo_registry ''resnet50'' PNone (PInt 1000) (PInt 3) ''w.pth''
                   None None None
                   [(''drop_connect_rate'', PFloat 1 (-2)), (''bn_tf'', PBool True),
                    (''global_pool'', PNone)]))"
    by (simp add: demo_run_resnet50)
  have d: "is_dict [(''drop_connect_rate'', PFloat 1 (-2)), (''bn_tf'', PBool True),
              (''global_pool'', PNone)]"
    by (simp add: is_dict_def)
  note t = create_model_drops_unset [OF h d]
  have 1: "PNone \<notin> snd ` set [(''act_layer'', PObj 1), (''norm_layer'', PObj 11),
                          (''drop_path_rate'', PFloat 1 (-2))]"
    by (rule t [THEN conjunct1])
  have 2: "map_of [(''drop_connect_rate'', PFloat 1 (-2)), (''bn_tf'', PBool True),
              (''global_pool'', PNone)] ''global_pool'' = Some PNone"
    by simp
  have 3: "map_of [(''act_layer'', PObj 1), (''norm_layer'', PObj 11),
              (''drop_path_rate'', PFloat 1 (-2))] ''global_pool'' = None"
    by simp
  have 4: "map_of [(''pretrained'', PNone), (''num_classes'', PInt 1000), (''in_chans'', PInt 3)]
        ''pretrained'' = Some PNone"
    by simp
  show ?thesis
    by (intro conjI) (rule h d 1 2 3 4)+
qed


text \<open>
  C8, as the code has it. Whenever the constructor is called: for a model name outside the
  \<^verbatim>\<open>efficientnet\<close> and \<^verbatim>\<open>mobilenetv3\<close> modules none of \<^verbatim>\<open>bn_tf\<close>, \<^verbatim>\<open>bn_momentum\<close>,
  \<^verbatim>\<open>bn_eps\<close> reaches it; for a model name in those modules each of them, and
  \<^verbatim>\<open>act_layer\<close> unresolved, reaches it unchanged when its value is not None and is left
  out (line 68) when its value is None. The run below gives \<^verbatim>\<open>bn_momentum=None\<close> to a
  model of the \<^verbatim>\<open>efficientnet\<close> module, and the constructor gets no \<^verbatim>\<open>bn_momentum\<close>.
\<close>

theorem create_model_bn_keywords:
  assumes "CreateFn n a kw'
             \<in> set (snd (create_model env model_name pretrained num_classes in_chans
                            checkpoint_path scriptable exportable no_jit kwargs))"
    and "is_dict kwargs"
    and "k \<in> {''bn_tf'', ''bn_momentum'', ''bn_eps''}"
  shows "(\<not> is_model_in_modules env model_name [''efficientnet'', ''mobilenetv3'']
            \<longrightarrow> k \<notin> fst ` set kw')
       \<and> (is_model_in_modules env model_name [''efficientnet'', ''mobilenetv3'']
            \<longrightarrow> map_of kw' k = (if map_of kwargs k = Some PNone then None else map_of kwargs k)
              \<and> map_of kw' ''act_layer''
                  = (if map_of kwargs ''act_layer'' = Some PNone then None
                     else map_of kwargs ''act_layer''))"
proof -
  from create_fn_called [OF assms(1)]
  have n: "fst (normalize_kwargs env (scriptable, exportable, no_jit) model_name kwargs) = Inr kw'"
    by simp
  from normalized_lookup [OF n assms(2)] obtain kw3 where
    d3: "is_dict kw3" and kw': "kw' = drop_unset kw3" and
    br: "if is_model_in_modules env model_name [''efficientnet'', ''mobilenetv3'']
         then \<forall>k \<in> {''bn_tf'', ''bn_momentum'', ''bn_eps'', ''act_layer''}.
                map_of kw3 k = map_of kwargs k
         else map_of kw3 ''bn_tf'' = None \<and> map_of kw3 ''bn_momentum'' = None
              \<and> map_of kw3 ''bn_eps'' = None
              \<and> (\<exists>la. get_act_layer env (scriptable, exportable, no_jit)
                         (get kwargs ''act_layer'' (PStr ''relu'')) = Inr la
                    \<and> map_of kw3 ''act_layer'' = Some la)"
    by (elim exE conjE) (rule that)
  have dropped: "map_of kw' j = (if map_of kw3 j = Some PNone then None else map_of kw3 j)" for j
    unfolding kw' map_of_drop_unset [OF d3]
    by (cases "map_of kw3 j") simp_all
  show ?thesis
  proof (cases "is_model_in_modules env model_name [''efficientnet'', ''mobilenetv3'']")
    case True
    with br have eq: "\<forall>k \<in> {''bn_tf'', ''bn_momentum'', ''bn_eps'', ''act_layer''}.
                map_of kw3 k = map_of kwargs k"
      by (simp only: if_True)
    from eq assms(3) have "map_of kw3 k = map_of kwargs k"
      by auto
    moreover from eq have "map_of kw3 ''act_layer'' = map_of kwargs ''act_layer''"
      by simp
    ultimately show ?thesis
      using True by (simp add: dropped)
  next
    case False
    with br have "map_of kw3 ''bn_tf'' = None" "map_of kw3 ''bn_momentum'' = None"
      "map_of kw3 ''bn_eps'' = None"
      by (simp_all only: if_False)
    with assms(3) have "map_of kw3 k = None"
      by auto
    then have "map_of kw' k = None"
      by (simp add: dropped)
    then have "k \<notin> fst ` set kw'"
      by (simp add: map_of_eq_None_iff)
    with False show ?thesis
      by simp
  qed
qed

theorem create_model_bn_keywords_witness:
  "CreateFn ''resnet50''
     [(''pretrained'', PNone), (''num_classes'', PInt 1000), (''in_chans'', PInt 3)]
     [(''act_layer'', PObj 1), (''norm_layer'', PObj 11), (''drop_path_rate'', PFloat 1 (-2))]
     \<in> set (snd (create_model demo_registry ''resnet50'' PNone (PInt 1000) (PInt 3) ''w.pth''
                   None None None
                   [(''drop_connect_rate'', PFloat 1 (-2)), (''bn_tf'', PBool True),
                    (''global_pool'', PNone)]))
   \<and> is_dict [(''drop_connect_rate'', PFloat 1 (-2)), (''bn_tf'', PBool True),
              (''global_pool'', PNone)]
   \<and> \<not> is_model_in_modules demo_registry ''resnet50'' [''efficientnet'', ''mobilenetv3'']
   \<and> ''bn_tf'' \<notin> fst ` set [(''act_layer'', PObj 1), (''norm_layer'', PObj 11),
                              (''drop_path_rate'', PFloat 1 (-2))]
   \<and> CreateFn ''efficientnet_b0''
       [(''pretrained'', PBool False), (''num_classes'', PInt 1000), (''in_chans'', PInt 3)]
       [(''act_layer'', PStr ''swish''), (''bn_eps'', PFloat 1 (-3)), (''norm_layer'', PObj 11)]
       \<in> set (snd (create_model demo_registry ''efficientnet_b0'' (PBool False) (PInt 1000)
                     (PInt 3) [] None None None
                     [(''bn_momentum'', PNone), (''act_layer'', PStr ''swish''),
                      (''bn_eps'', PFloat 1 (-3))]))
   \<and> is_dict [(''bn_momentum'', PNone), (''act_layer'', PStr ''swish''),
              (''bn_eps'', PFloat 1 (-3))]
   \<and> is_model_in_modules demo_registry ''efficientnet_b0'' [''efficientnet'', ''mobilenetv3'']
   \<and> map_of [(''act_layer'', PStr ''swish''), (''bn_eps'', PFloat 1 (-3)),
              (''norm_layer'', PObj 11)] ''bn_eps'' = Some (PFloat 1 (-3))"
proof -
  have h1: "CreateFn ''resnet50''
     [(''pretrained'', PNone), (''num_classes'', PInt 1000), (''in_chans'', PInt 3)]
     [(''act_layer'', PObj 1), (''norm_layer'', PObj 11), (''drop_path_rate'', PFloat 1 (-2))]
     \<in> set (snd (create_model demo_registry ''resnet50'' PNone (PInt 1000) (PInt 3) ''w.pth''
                   None None None
                   [(''drop_connect_rate'', PFloat 1 (-2)), (''bn_tf'', PBool True),
                    (''global_pool'', PNone)]))"
    by (simp add: demo_run_resnet50)
  have d1: "is_dict [(''drop_connect_rate'', PFloat 1 (-2)), (''bn_tf'', PBool True),
              (''global_pool'', PNone)]"
    by (simp add: is_dict_def)
  have e1: "\<not> is_model_in_modules demo_registry ''resnet50'' [''efficientnet'', ''mobilenetv3'']"
    by (simp add: demo_registry_def)
  have k1: "''bn_tf'' \<in> {''bn_tf'', ''bn_momentum'', ''bn_eps''}"
    by simp
  from create_model_bn_keywords [OF h1 d1 k1] e1
  have r1: "''bn_tf'' \<notin> fst ` set [(''act_layer'', PObj 1), (''norm_layer'', PObj 11),
                              (''drop_path_rate'', PFloat 1 (-2))]"
    by (simp only: simp_thms)
  have h2: "CreateFn ''efficientnet_b0''
       [(''pretrained'', PBool False), (''num_classes'', PInt 1000), (''in_chans'', PInt 3)]
       [(''act_layer'', PStr ''swish''), (''bn_eps'', PFloat 1 (-3)), (''norm_layer'', PObj 11)]
       \<in> set (snd (create_model demo_registry ''efficientnet_b0'' (PBool False) (PInt 1000)
                     (PInt 3) [] None None None
                     [(''bn_momentum'', PNone), (''act_layer'', PStr ''swish''),
                      (''bn_eps'', PFloat 1 (-3))]))"
    by (simp add: demo_run_efficientnet)
  have d2: "is_dict [(''bn_momentum'', PNone), (''act_layer'', PStr ''swish''),
              (''bn_eps'', PFloat 1 (-3))]"
    by (simp add: is_dict_def)
  have e2: "is_model_in_modules demo_registry ''efficientnet_b0'' [''efficientnet'', ''mobilenetv3'']"
    by (simp add: demo_registry_def)
  have k2: "''bn_eps'' \<in> {''bn_tf'', ''bn_momentum'', ''bn_eps''}"
    by simp
  from create_model_bn_keywords [OF h2 d2 k2] e2
  have "map_of [(''act_layer'', PStr ''swish''), (''bn_eps'', PFloat 1 (-3)),
              (''norm_layer'', PObj 11)] ''bn_eps''
        = (if map_of [(''bn_momentum'', PNone), (''act_layer'', PStr ''swish''),
                      (''bn_eps'', PFloat 1 (-3))] ''bn_eps'' = Some PNone then None
           else map_of [(''bn_momentum'', PNone), (''act_layer'', PStr ''swish''),
                        (''bn_eps'', PFloat 1 (-3))] ''bn_eps'')"
    by (simp only: simp_thms)
  then have r2: "map_of [(''act_layer'', PStr ''swish''), (''bn_eps'', PFloat 1 (-3)),
              (''norm_layer'', PObj 11)] ''bn_eps'' = Some (PFloat 1 (-3))"
    by simp
  show ?thesis
    by (intro conjI) (rule h1 d1 e1 r1 h2 d2 e2 r2)+
qed

theorem create_model_bn_keywords_counterexample:
  "is_model_in_modules demo_registry ''efficientnet_b0'' [''efficientnet'', ''mobilenetv3'']
   \<and> CreateFn ''efficientnet_b0''
       [(''pretrained'', PBool False), (''num_classes'', PInt 1000), (''in_chans'', PInt 3)]
       [(''act_layer'', PStr ''swish''), (''bn_eps'', PFloat 1 (-3)), (''norm_layer'', PObj 11)]
       \<in> set (snd (create_model demo_registry ''efficientnet_b0'' (PBool False) (PInt 1000)
                     (PInt 3) [] None None None
                     [(''bn_momentum'', PNone), (''act_layer'', PStr ''swish''),
                      (''bn_eps'', PFloat 1 (-3))]))
   \<and> map_of [(''bn_momentum'', PNone), (''act_layer'', PStr ''swish''),
              (''bn_eps'', PFloat 1 (-3))] ''bn_momentum'' = Some PNone
   \<and> ''bn_momentum'' \<notin> fst ` set [(''act_layer'', PStr ''swish''), (''bn_eps'', PFloat 1 (-3)),
                                    (''norm_layer'', PObj 11)]"
proof -
  have 1: "is_model_in_modules demo_registry ''efficientnet_b0'' [''efficientnet'', ''mobilenetv3'']"
    by (simp add: demo_registry_def)
  have 2: "CreateFn ''efficientnet_b0''
       [(''pretrained'', PBool False), (''num_classes'', PInt 1000), (''in_chans'', PInt 3)]
       [(''act_layer'', PStr ''swish''), (''bn_eps'', PFloat 1 (-3)), (''norm_layer'', PObj 11)]
       \<in> set (snd (create_model demo_registry ''efficientnet_b0'' (PBool False) (PInt 1000)
                     (PInt 3) [] None None None
                     [(''bn_momentum'', PNone), (''act_layer'', PStr ''swish''),
                      (''bn_eps'', PFloat 1 (-3))]))"
    by (simp add: demo_run_efficientnet)
  have 3: "map_of [(''bn_momentum'', PNone), (''act_layer'', PStr ''swish''),
              (''bn_eps'', PFloat 1 (-3))] ''bn_momentum'' = Some PNone"
    by simp
  have 4: "''bn_momentum'' \<notin> fst ` set [(''act_layer'', PStr ''swish''), (''bn_eps'', PFloat 1 (-3)),
                                    (''norm_layer'', PObj 11)]"
    by simp
  show ?thesis
    by (intro conjI) (rule 1 2 3 4)+
qed

text \<open>
  C6. \<^verbatim>\<open>build_backbone\<close> calls \<^verbatim>\<open>create_model\<close> with scriptable and no_jit both True
  when \<^verbatim>\<open>cfg.MODEL.OPT\<close> is \<^verbatim>\<open>'infer'\<close>, with scriptable True and no_jit False when it is
  \<^verbatim>\<open>'jit'\<close>, and with both False otherwise; exportable is False in every case. Every
  layer configuration that the run sets carries these three flags.
\<close>

theorem build_backbone_flags:
  "(OPT (MODEL cf) = PStr ''infer'' \<longrightarrow>
      build_backbone env cf
        = create_model env (BACKBONE (MODEL cf)) (PBool True) (CLASSES (MODEL cf))
            (INPUT_CHANNEL (TRAIN cf)) (BACKBONE_WEIGHTS (MODEL cf))
            (Some True) (Some False) (Some True)
            [(''norm_layer'', NORM_LAYER (MODEL cf)), (''act_layer'', ACTIVATE (MODEL cf)),
             (''global_pool'', POOLING_LAYER (MODEL cf))])
   \<and> (OPT (MODEL cf) = PStr ''jit'' \<longrightarrow>
      build_backbone env cf
        = create_model env (BACKBONE (MODEL cf)) (PBool True) (CLASSES (MODEL cf))
            (INPUT_CHANNEL (TRAIN cf)) (BACKBONE_WEIGHTS (MODEL cf))
            (Some True) (Some False) (Some False)
            [(''norm_layer'', NORM_LAYER (MODEL cf)), (''act_layer'', ACTIVATE (MODEL cf)),
             (''global_pool'', POOLING_LAYER (MODEL cf))])
   \<and> (OPT (MODEL cf) \<noteq> PStr ''infer'' \<and> OPT (MODEL cf) \<noteq> PStr ''jit'' \<longrightarrow>
      build_backbone env cf
        = create_model env (BACKBONE (MODEL cf)) (PBool True) (CLASSES (MODEL cf))
            (INPUT_CHANNEL (TRAIN cf)) (BACKBONE_WEIGHTS (MODEL cf))
            (Some False) (Some False) (Some False)
            [(''norm_layer'', NORM_LAYER (MODEL cf)), (''act_layer'', ACTIVATE (MODEL cf)),
             (''global_pool'', POOLING_LAYER (MODEL cf))])
   \<and> (\<forall>c. SetLayerConfig c \<in> set (snd (build_backbone env cf)) \<longrightarrow>
          c = (Some (OPT (MODEL cf) = PStr ''infer'' \<or> OPT (MODEL cf) = PStr ''jit''),
               Some False,
               Some (OPT (MODEL cf) = PStr ''infer'')))"
proof (intro conjI allI impI)
  fix c
  assume "SetLayerConfig c \<in> set (snd (build_backbone env cf))"
  then show "c = (Some (OPT (MODEL cf) = PStr ''infer'' \<or> OPT (MODEL cf) = PStr ''jit''),
               Some False,
               Some (OPT (MODEL cf) = PStr ''infer''))"
    by (auto simp add: build_backbone_def backbone_flags_def Let_def
        split: if_splits dest!: create_model_layer_config)
qed (simp_all add: build_backbone_def backbone_flags_def Let_def)

theorem build_backbone_flags_witness:
  "OPT (MODEL (demo_cfg (PStr ''infer''))) = PStr ''infer''
   \<and> build_backbone demo_registry (demo_cfg (PStr ''infer''))
       = create_model demo_registry ''resnet50'' (PBool True) (PInt 10) (PInt 3) []
           (Some True) (Some False) (Some True)
           [(''norm_layer'', PStr ''BN''), (''act_layer'', PStr ''relu''),
            (''global_pool'', PStr ''avg'')]
   \<and> OPT (MODEL (demo_cfg (PStr ''jit''))) = PStr ''jit''
   \<and> build_backbone demo_registry (demo_cfg (PStr ''jit''))
       = create_model demo_registry ''resnet50'' (PBool True) (PInt 10) (PInt 3) []
           (Some True) (Some False) (Some False)
           [(''norm_layer'', PStr ''BN''), (''act_layer'', PStr ''relu''),
            (''global_pool'', PStr ''avg'')]
   \<and> OPT (MODEL (demo_cfg PNone)) \<noteq> PStr ''infer'' \<and> OPT (MODEL (demo_cfg PNone)) \<noteq> PStr ''jit''
   \<and> build_backbone demo_registry (demo_cfg PNone)
       = create_model demo_registry ''resnet50'' (PBool True) (PInt 10) (PInt 3) []
           (Some False) (Some False) (Some False)
           [(''norm_layer'', PStr ''BN''), (''act_layer'', PStr ''relu''),
            (''global_pool'', PStr ''avg'')]
   \<and> SetLayerConfig (Some True, Some False, Some True)
       \<in> set (snd (build_backbone demo_registry (demo_cfg (PStr ''infer''))))"
proof -
  have i: "OPT (MODEL (demo_cfg (PStr ''infer''))) = PStr ''infer''"
    and j: "OPT (MODEL (demo_cfg (PStr ''jit''))) = PStr ''jit''"
    and o1: "OPT (MODEL (demo_cfg PNone)) \<noteq> PStr ''infer''"
    and o2: "OPT (MODEL (demo_cfg PNone)) \<noteq> PStr ''jit''"
    by (simp_all add: demo_cfg_def)
  have f: "BACKBONE (MODEL (demo_cfg opt)) = ''resnet50''"
    "CLASSES (MODEL (demo_cfg opt)) = PInt 10"
    "INPUT_CHANNEL (TRAIN (demo_cfg opt)) = PInt 3"
    "BACKBONE_WEIGHTS (MODEL (demo_cfg opt)) = []"
    "NORM_LAYER (MODEL (demo_cfg opt)) = PStr ''BN''"
    "ACTIVATE (MODEL (demo_cfg opt)) = PStr ''relu''"
    "POOLING_LAYER (MODEL (demo_cfg opt)) = PStr ''avg''" for opt
    by (simp_all add: demo_cfg_def)
  note t1 = build_backbone_flags [of "demo_cfg (PStr ''infer'')" demo_registry]
  note t2 = build_backbone_flags [of "demo_cfg (PStr ''jit'')" demo_registry]
  note t3 = build_backbone_flags [of "demo_cfg PNone" demo_registry]
  from t1 i have 1: "build_backbone demo_registry (demo_cfg (PStr ''infer''))
       = create_model demo_registry ''resnet50'' (PBool True) (PInt 10) (PInt 3) []
           (Some True) (Some False) (Some True)
           [(''norm_layer'', PStr ''BN''), (''act_layer'', PStr ''relu''),
            (''global_pool'', PStr ''avg'')]"
    by (simp only: f simp_thms)
  from t2 j have 2: "build_backbone demo_registry (demo_cfg (PStr ''jit''))
       = create_model demo_registry ''resnet50'' (PBool True) (PInt 10) (PInt 3) []
           (Some True) (Some False) (Some False)
           [(''norm_layer'', PStr ''BN''), (''act_layer'', PStr ''relu''),
            (''global_pool'', PStr ''avg'')]"
    by (simp only: f simp_thms)
  from t3 o1 o2 have 3: "build_backbone demo_registry (demo_cfg PNone)
       = create_model demo_registry ''resnet50'' (PBool True) (PInt 10) (PInt 3) []
           (Some False) (Some False) (Some False)
           [(''norm_layer'', PStr ''BN''), (''act_layer'', PStr ''relu''),
            (''global_pool'', PStr ''avg'')]"
    by (simp only: f simp_thms)
  have 4: "SetLayerConfig (Some True, Some False, Some True)
       \<in> set (snd (build_backbone demo_registry (demo_cfg (PStr ''infer''))))"
    by (simp add: demo_run_build_backbone)
  show ?thesis
    by (intro conjI) (rule i j o1 o2 1 2 3 4)+
qed


text \<open>
  C9. \<^verbatim>\<open>build_backbone\<close> passes True for \<^verbatim>\<open>pretrained\<close>, whatever \<^verbatim>\<open>cfg\<close> holds: the
  call of \<^verbatim>\<open>create_model\<close> has it, and so has every constructor call of the run.
\<close>

theorem build_backbone_pretrained:
  "(\<exists>scriptable exportable no_jit.
      build_backbone env cf
        = create_model env (BACKBONE (MODEL cf)) (PBool True) (CLASSES (MODEL cf))
            (INPUT_CHANNEL (TRAIN cf)) (BACKBONE_WEIGHTS (MODEL cf))
            scriptable exportable no_jit
            [(''norm_layer'', NORM_LAYER (MODEL cf)), (''act_layer'', ACTIVATE (MODEL cf)),
             (''global_pool'', POOLING_LAYER (MODEL cf))])
   \<and> (\<forall>n a kw. CreateFn n a kw \<in> set (snd (build_backbone env cf))
          \<longrightarrow> map_of a ''pretrained'' = Some (PBool True))"
proof (intro conjI allI impI)
  show "\<exists>scriptable exportable no_jit.
      build_backbone env cf
        = create_model env (BACKBONE (MODEL cf)) (PBool True) (CLASSES (MODEL cf))
            (INPUT_CHANNEL (TRAIN cf)) (BACKBONE_WEIGHTS (MODEL cf))
            scriptable exportable no_jit
            [(''norm_layer'', NORM_LAYER (MODEL cf)), (''act_layer'', ACTIVATE (MODEL cf)),
             (''global_pool'', POOLING_LAYER (MODEL cf))]"
    by (simp add: build_backbone_def split_beta) blast
next
  fix n a kw
  assume "CreateFn n a kw \<in> set (snd (build_backbone env cf))"
  then have "a = [(''pretrained'', PBool True), (''num_classes'', CLASSES (MODEL cf)),
                  (''in_chans'', INPUT_CHANNEL (TRAIN cf))]"
    by (auto simp add: build_backbone_def split_beta dest!: create_fn_called)
  then show "map_of a ''pretrained'' = Some (PBool True)"
    by simp
qed

theorem build_backbone_pretrained_witness:
  "CreateFn ''resnet50''
     [(''pretrained'', PBool True), (''num_classes'', PInt 10), (''in_chans'', PInt 3)]
     [(''global_pool'', PStr ''avg''), (''act_layer'', PObj 1), (''norm_layer'', PObj 11)]
     \<in> set (snd (build_backbone demo_registry (demo_cfg (PStr ''infer''))))
   \<and> map_of [(''pretrained'', PBool True), (''num_classes'', PInt 10), (''in_chans'', PInt 3)]
        ''pretrained'' = Some (PBool True)"
proof -
  have h: "CreateFn ''resnet50''
     [(''pretrained'', PBool True), (''num_classes'', PInt 10), (''in_chans'', PInt 3)]
     [(''global_pool'', PStr ''avg''), (''act_layer'', PObj 1), (''norm_layer'', PObj 11)]
     \<in> set (snd (build_backbone demo_registry (demo_cfg (PStr ''infer''))))"
    by (simp add: demo_run_build_backbone)
  from build_backbone_pretrained [of demo_registry "demo_cfg (PStr ''infer'')"]
  have "\<forall>n a kw. CreateFn n a kw
            \<in> set (snd (build_backbone demo_registry (demo_cfg (PStr ''infer''))))
          \<longrightarrow> map_of a ''pretrained'' = Some (PBool True)"
    by (rule conjunct2)
  from this [rule_format, OF h] h show ?thesis
    by (intro conjI)
qed

end
